theory Spec2Isabelle
  imports Main "HOL-Library.Sublist"
begin

section \<open>The runtime: values, strings, the platform\<close>

text \<open>
  The model follows \<^verbatim>\<open>src/index.ts\<close>. A JavaScript string is a \<open>string\<close>; a
  \<open>char\<close> stands for a code unit below 256. A value that the program handles without
  looking inside (a message, a decoded record) is a \<open>jsval\<close>. Numbers are the
  integers and NaN; an object carries the text its own \<^verbatim>\<open>toString()\<close> returns.
\<close>

datatype jsval =
    JSUndefined
  | JSNull
  | JSBool bool
  | JSNum int
  | JSNaN
  | JSStr string
  | JSObj string

text \<open>Truthiness, as \<^verbatim>\<open>!data\<close> and \<^verbatim>\<open>a || b\<close> read it.\<close>

fun truthy :: "jsval \<Rightarrow> bool" where
  "truthy JSUndefined = False"
| "truthy JSNull = False"
| "truthy (JSBool b) = b"
| "truthy (JSNum n) = (n \<noteq> 0)"
| "truthy JSNaN = False"
| "truthy (JSStr s) = (s \<noteq> [])"
| "truthy (JSObj s) = True"

fun is_string :: "jsval \<Rightarrow> bool" where
  "is_string (JSStr s) = True"
| "is_string v = False"

definition digit_char :: "nat \<Rightarrow> char" where
  "digit_char d = ''0123456789'' ! (d mod 10)"

fun digits :: "nat \<Rightarrow> string" where
  "digits n = (if n < 10 then [digit_char n] else digits (n div 10) @ [digit_char (n mod 10)])"

declare digits.simps [simp del]

definition string_of_int :: "int \<Rightarrow> string" where
  "string_of_int i = (if i < 0 then CHR ''-'' # digits (nat (- i)) else digits (nat i))"

text \<open>
  The string representation of a value: what \<^verbatim>\<open>'' + v\<close>, \<^verbatim>\<open>v += s\<close> and
  \<^verbatim>\<open>v.toString()\<close> produce. The numbers of this model are the integers, printed
  with all their decimal digits, which is what JavaScript prints for an integer of
  magnitude below \<^verbatim>\<open>1e21\<close>; fractions and the exponent notation of larger numbers
  are not modelled.
\<close>

fun js_to_string :: "jsval \<Rightarrow> string" where
  "js_to_string JSUndefined = ''undefined''"
| "js_to_string JSNull = ''null''"
| "js_to_string (JSBool b) = (if b then ''true'' else ''false'')"
| "js_to_string (JSNum n) = string_of_int n"
| "js_to_string JSNaN = ''NaN''"
| "js_to_string (JSStr s) = s"
| "js_to_string (JSObj s) = s"

text \<open>
  \<^verbatim>\<open>import {EOL as newline} from 'os'\<close>: the line terminator is the platform's,
  a line feed on POSIX systems and carriage return, line feed on Windows.
\<close>

datatype platform = Posix | Win32

definition newline :: "platform \<Rightarrow> string" where
  "newline pf = (case pf of Posix \<Rightarrow> [CHR 0x0A] | Win32 \<Rightarrow> [CHR 0x0D, CHR 0x0A])"

text \<open>
  \<^verbatim>\<open>s.split(new RegExp(newline, 'g'))\<close>: the text is scanned from the left; at a
  position where the separator matches, the piece read so far is closed and the scan
  goes on after the match; the piece after the last match is the last element, so the
  result is never empty.
\<close>

fun split_from :: "string \<Rightarrow> string \<Rightarrow> string \<Rightarrow> string list" where
  "split_from sep cur [] = [cur]"
| "split_from sep cur (c # cs) =
     (if sep \<noteq> [] \<and> prefix sep (c # cs)
      then cur # split_from sep [] (drop (length sep - 1) cs)
      else split_from sep (cur @ [c]) cs)"

definition split :: "string \<Rightarrow> string \<Rightarrow> string list" where
  "split sep s = split_from sep [] s"

text \<open>\<^verbatim>\<open>parts.join(sep)\<close>.\<close>

fun join :: "string \<Rightarrow> string list \<Rightarrow> string" where
  "join sep [] = []"
| "join sep [p] = p"
| "join sep (p # q # ps) = p @ sep @ join sep (q # ps)"

text \<open>
  \<^verbatim>\<open>s.trim()\<close> removes white space and line terminators at both ends: tab, line
  feed, vertical tab, form feed, carriage return, space and no-break space among the
  code units below 256.
\<close>

definition is_space :: "char \<Rightarrow> bool" where
  "is_space c = (c \<in> set [CHR 0x09, CHR 0x0A, CHR 0x0B, CHR 0x0C, CHR 0x0D, CHR 0x20, CHR 0xA0])"

definition trim :: "string \<Rightarrow> string" where
  "trim s = rev (dropWhile is_space (rev (dropWhile is_space s)))"

section \<open>Errors, effects and the session\<close>

text \<open>
  \<^verbatim>\<open>class PythonShellError extends Error\<close>, with the properties that
  \<^verbatim>\<open>terminateIfNeeded\<close> adds through \<^verbatim>\<open>extend\<close>. A property that is not set is
  \<open>None\<close>; \<^verbatim>\<open>null\<close> in \<open>options\<close> and \<open>args\<close> is \<open>None\<close> as well.
\<close>

record PythonShellError =
  message :: string
  stack :: string
  traceback :: "string option"
  executable :: "string option"
  options :: "string list option"
  script :: "string option"
  args :: "string list option"
  errExitCode :: "int option"

text \<open>
  What a handler can throw: the exception of a parser (\<^verbatim>\<open>JSON.parse\<close> throws on
  text that is not JSON), the TypeError of calling a parser that is
  \<^verbatim>\<open>undefined\<close>, and the error that \<^verbatim>\<open>EventEmitter.emit('error', err)\<close> throws
  when no listener is registered for \<^verbatim>\<open>'error'\<close>. Listeners, the completion
  callback, a formatter and the writes to the child process are taken to return
  normally.
\<close>

datatype exn =
    CodecError string
  | TypeError string
  | UnhandledError PythonShellError

type_synonym callback = nat

text \<open>
  The effects a session has on the outside: the calls of \<^verbatim>\<open>emit\<close>, of the
  completion callback, and of the child process's \<^verbatim>\<open>stdin.write\<close>,
  \<^verbatim>\<open>stdin.end\<close> and \<^verbatim>\<open>kill\<close>, in the order they happen.
\<close>

datatype effect =
    Emit_message jsval
  | Emit_stderr jsval
  | Emit_error PythonShellError
  | Emit_close
  | EndCallback callback "PythonShellError option" "int option" "string option"
  | StdinWrite jsval
  | StdinEnd
  | Kill "string option"

datatype mode = Text | Json | Binary

text \<open>
  What the program takes from Node: the platform, \<^verbatim>\<open>JSON.stringify\<close> and
  \<^verbatim>\<open>JSON.parse\<close>, the stack trace a new \<^verbatim>\<open>Error\<close> records for its message, and
  \<^verbatim>\<open>path.join\<close>.
\<close>

record runtime =
  platform :: platform
  JSON_stringify :: "jsval \<Rightarrow> jsval"
  JSON_parse :: "string \<Rightarrow> exn + jsval"
  captureStack :: "string \<Rightarrow> string"
  path_join :: "string \<Rightarrow> string \<Rightarrow> string"

text \<open>
  \<^verbatim>\<open>class PythonShell\<close>: its fields, the variables its constructor closes over
  (\<open>errorData\<close>, \<open>pythonPath\<close>, \<open>pythonOptions\<close>, \<open>scriptArgs\<close>), the number of
  listeners registered for \<^verbatim>\<open>'error'\<close>, and the effects so far. A field that is
  \<^verbatim>\<open>undefined\<close> or \<^verbatim>\<open>null\<close> is \<open>None\<close>; the two flags start out
  \<^verbatim>\<open>undefined\<close>, which reads as false.
\<close>

record PythonShell =
  rt :: runtime
  scriptPath :: string
  command :: "string list"
  mode :: mode
  formatter :: "(jsval \<Rightarrow> jsval) option"
  parser :: "(string \<Rightarrow> exn + jsval) option"
  stderrParser :: "(string \<Rightarrow> exn + jsval) option"
  terminated :: bool
  exitSignal :: "string option"
  exitCode :: "int option"
  stderrHasEnded :: bool
  stdoutHasEnded :: bool
  remaining :: "string option"
  endCallback :: "callback option"
  errorData :: string
  pythonPath :: string
  pythonOptions :: "string list"
  scriptArgs :: "string list"
  errorListeners :: nat
  effects :: "effect list"

section \<open>The codecs\<close>

text \<open>\<^verbatim>\<open>PythonShell.format.text\<close>.\<close>

definition toText :: "jsval \<Rightarrow> jsval" where
  "toText data =
     (if \<not> truthy data then JSStr []
      else if \<not> is_string data then JSStr (js_to_string data)
      else data)"

text \<open>\<^verbatim>\<open>PythonShell.parse.text\<close>.\<close>

definition asText :: "string \<Rightarrow> exn + jsval" where
  "asText data = Inr (JSStr data)"

text \<open>
  The tables \<^verbatim>\<open>PythonShell.format\<close> and \<^verbatim>\<open>PythonShell.parse\<close>, read at a mode's
  name: they have no entry for \<^verbatim>\<open>'binary'\<close>.
\<close>

definition format_table :: "runtime \<Rightarrow> mode \<Rightarrow> (jsval \<Rightarrow> jsval) option" where
  "format_table r m = (case m of Text \<Rightarrow> Some toText | Json \<Rightarrow> Some (JSON_stringify r) | Binary \<Rightarrow> None)"

definition parse_table :: "runtime \<Rightarrow> mode \<Rightarrow> (string \<Rightarrow> exn + jsval) option" where
  "parse_table r m = (case m of Text \<Rightarrow> Some asText | Json \<Rightarrow> Some (JSON_parse r) | Binary \<Rightarrow> None)"

text \<open>
  \<^verbatim>\<open>resolve(type, options.f || this.mode)\<close>: a function given in the options is
  used as it is, otherwise the table is read at the mode.
\<close>

definition resolve :: "(mode \<Rightarrow> 'f option) \<Rightarrow> 'f option \<Rightarrow> mode \<Rightarrow> 'f option" where
  "resolve table custom m = (case custom of Some f \<Rightarrow> Some f | None \<Rightarrow> table m)"

section \<open>The constructor\<close>

record Options =
  opt_mode :: "mode option"
  opt_formatter :: "(jsval \<Rightarrow> jsval) option"
  opt_parser :: "(string \<Rightarrow> exn + jsval) option"
  opt_stderrParser :: "(string \<Rightarrow> exn + jsval) option"
  opt_pythonPath :: "string option"
  opt_pythonOptions :: "string list option"
  opt_scriptFolder :: "string option"
  opt_args :: "string list option"

definition toArray :: "'a list option \<Rightarrow> 'a list" where
  "toArray source = (case source of None \<Rightarrow> [] | Some xs \<Rightarrow> xs)"

definition defaultPythonPath :: "platform \<Rightarrow> string" where
  "defaultPythonPath pf = (if pf \<noteq> Win32 then ''python3'' else ''python'')"

text \<open>
  \<^verbatim>\<open>new PythonShell(scriptPath, options)\<close>, with \<^verbatim>\<open>PythonShell.defaultOptions\<close>
  empty as the source sets it. An empty \<^verbatim>\<open>pythonPath\<close> or \<^verbatim>\<open>scriptFolder\<close>
  counts as absent (\<^verbatim>\<open>!options.pythonPath\<close>, \<^verbatim>\<open>options.scriptFolder || ''\<close>).
  The codec options are functions, as the interface \<^verbatim>\<open>Options\<close> types them; the
  encoding and the options that go on to \<^verbatim>\<open>spawn\<close> have no part in what follows.
\<close>

definition new_PythonShell :: "runtime \<Rightarrow> string \<Rightarrow> Options \<Rightarrow> PythonShell" where
  "new_PythonShell r path opts =
     (let python = (case opt_pythonPath opts of
                      None \<Rightarrow> defaultPythonPath (platform r)
                    | Some p \<Rightarrow> if p = [] then defaultPythonPath (platform r) else p);
          pyOpts = toArray (opt_pythonOptions opts);
          sArgs = toArray (opt_args opts);
          sPath = path_join r (case opt_scriptFolder opts of None \<Rightarrow> [] | Some d \<Rightarrow> d) path;
          m = (case opt_mode opts of None \<Rightarrow> Text | Some m' \<Rightarrow> m')
      in \<lparr> rt = r,
           scriptPath = sPath,
           command = pyOpts @ [sPath] @ sArgs,
           mode = m,
           formatter = resolve (format_table r) (opt_formatter opts) m,
           parser = resolve (parse_table r) (opt_parser opts) m,
           stderrParser = resolve (parse_table r) (opt_stderrParser opts) m,
           terminated = False,
           exitSignal = None,
           exitCode = None,
           stderrHasEnded = False,
           stdoutHasEnded = False,
           remaining = None,
           endCallback = None,
           errorData = [],
           pythonPath = python,
           pythonOptions = pyOpts,
           scriptArgs = sArgs,
           errorListeners = 0,
           effects = [] \<rparr>)"

section \<open>The error parser\<close>

text \<open>\<^verbatim>\<open>new PythonShellError(msg)\<close>: the message, the stack trace the runtime records.\<close>

definition new_PythonShellError :: "runtime \<Rightarrow> string \<Rightarrow> PythonShellError" where
  "new_PythonShellError r msg =
     \<lparr> message = msg, stack = captureStack r msg, traceback = None, executable = None,
       options = None, script = None, args = None, errExitCode = None \<rparr>"

text \<open>
  \<^verbatim>\<open>parseError(data)\<close>. \<^verbatim>\<open>/^Traceback/.test(text)\<close> holds when the text starts
  with the marker; \<^verbatim>\<open>lines.pop()\<close> takes the last line off, \<^verbatim>\<open>lines.slice(1)\<close>
  leaves the first of the others out.
\<close>

definition parseError :: "runtime \<Rightarrow> string \<Rightarrow> PythonShellError" where
  "parseError r data =
     (let nl = newline (platform r); text = data in
      if prefix ''Traceback'' text then
        (let lines = split nl (trim data);
             exception = last lines;
             lines = butlast lines;
             error = new_PythonShellError r exception;
             error = error\<lparr>traceback := Some data\<rparr>;
             error = error\<lparr>stack := stack error @ nl @ ''    ----- Python Traceback -----'' @ nl @ ''  ''\<rparr>
         in error\<lparr>stack := stack error @ join (nl @ ''  '') (drop 1 lines)\<rparr>)
      else new_PythonShellError r text)"

section \<open>The lifecycle\<close>

text \<open>
  \<^verbatim>\<open>self.emit(...)\<close> is recorded among the effects. With no listener registered for
  \<^verbatim>\<open>'error'\<close>, Node's \<^verbatim>\<open>emit('error', err)\<close> throws \<open>err\<close>.
\<close>

definition emit :: "effect \<Rightarrow> PythonShell \<Rightarrow> PythonShell" where
  "emit e self = self\<lparr>effects := effects self @ [e]\<rparr>"

definition emit_error :: "PythonShellError \<Rightarrow> PythonShell \<Rightarrow> PythonShell \<times> exn option" where
  "emit_error err self =
     (emit (Emit_error err) self,
      if errorListeners self = 0 then Some (UnhandledError err) else None)"

text \<open>
  The error that \<^verbatim>\<open>terminateIfNeeded\<close> builds for a non-zero exit code (lines 162 to
  173 of the source).
\<close>

definition exit_error :: "PythonShell \<Rightarrow> int \<Rightarrow> PythonShellError" where
  "exit_error self code =
     (let err = (if errorData self \<noteq> [] then parseError (rt self) (errorData self)
                 else new_PythonShellError (rt self)
                        (''process exited with code '' @ string_of_int code))
      in err\<lparr> executable := Some (pythonPath self),
              options := (if pythonOptions self \<noteq> [] then Some (pythonOptions self) else None),
              script := Some (scriptPath self),
              args := (if scriptArgs self \<noteq> [] then Some (scriptArgs self) else None),
              errExitCode := Some code \<rparr>)"

text \<open>
  The last three statements of \<^verbatim>\<open>terminateIfNeeded\<close>: the flag, the
  \<^verbatim>\<open>'close'\<close> event, and the completion callback when there is one.
\<close>

definition finish :: "PythonShellError option \<Rightarrow> PythonShell \<Rightarrow> PythonShell" where
  "finish err self =
     (let self = emit Emit_close (self\<lparr>terminated := True\<rparr>)
      in case endCallback self of
           None \<Rightarrow> self
         | Some cb \<Rightarrow> self\<lparr>effects := effects self @ [EndCallback cb err (exitCode self) (exitSignal self)]\<rparr>)"

text \<open>
  \<^verbatim>\<open>terminateIfNeeded()\<close>. \<^verbatim>\<open>self.exitCode && self.exitCode !== 0\<close> holds for a
  code that is present and not zero.
\<close>

definition terminateIfNeeded :: "PythonShell \<Rightarrow> PythonShell \<times> exn option" where
  "terminateIfNeeded self =
     (if \<not> stderrHasEnded self \<or> \<not> stdoutHasEnded self
         \<or> (exitCode self = None \<and> exitSignal self = None)
      then (self, None)
      else case exitCode self of
             None \<Rightarrow> (finish None self, None)
           | Some code \<Rightarrow>
               if code = 0 then (finish None self, None)
               else let err = exit_error self code in
                 if errorListeners self \<noteq> 0 \<or> endCallback self = None
                 then (case emit_error err self of
                         (self', Some e) \<Rightarrow> (self', Some e)
                       | (self', None) \<Rightarrow> (finish (Some err) self', None))
                 else (finish (Some err) self, None))"

section \<open>Sending and receiving\<close>

text \<open>\<^verbatim>\<open>send(message)\<close>; \<^verbatim>\<open>data += newline\<close> turns \<open>data\<close> into a string.\<close>

definition send :: "jsval \<Rightarrow> PythonShell \<Rightarrow> PythonShell" where
  "send msg self =
     (let data = (case formatter self of Some f \<Rightarrow> f msg | None \<Rightarrow> msg);
          data = (if mode self \<noteq> Binary
                  then JSStr (js_to_string data @ newline (platform (rt self)))
                  else data)
      in self\<lparr>effects := effects self @ [StdinWrite data]\<rparr>)"

datatype emitType = Message | Stderr

text \<open>Calling a codec; one that is \<^verbatim>\<open>undefined\<close> is not a function.\<close>

definition call_codec :: "(string \<Rightarrow> exn + jsval) option \<Rightarrow> string \<Rightarrow> exn + jsval" where
  "call_codec p part =
     (case p of None \<Rightarrow> Inl (TypeError ''not a function'') | Some f \<Rightarrow> f part)"

text \<open>
  The \<^verbatim>\<open>parts.forEach\<close> of \<^verbatim>\<open>recieveInternal\<close>: each part is decoded and emitted;
  an exception of the codec ends the loop and leaves the handler.
\<close>

fun emit_parts :: "emitType \<Rightarrow> string list \<Rightarrow> PythonShell \<Rightarrow> PythonShell \<times> exn option" where
  "emit_parts ty [] self = (self, None)"
| "emit_parts ty (part # parts) self =
     (case ty of
        Message \<Rightarrow>
          (case call_codec (parser self) part of
             Inl e \<Rightarrow> (self, Some e)
           | Inr v \<Rightarrow> emit_parts ty parts (emit (Emit_message v) self))
      | Stderr \<Rightarrow>
          (case call_codec (stderrParser self) part of
             Inl e \<Rightarrow> (self, Some e)
           | Inr v \<Rightarrow> emit_parts ty parts (emit (Emit_stderr v) self)))"

text \<open>
  \<^verbatim>\<open>this._remaining || ''\<close>: the buffered fragment, the empty string while the
  field is \<^verbatim>\<open>undefined\<close>.
\<close>

definition fragment :: "PythonShell \<Rightarrow> string" where
  "fragment self = (case remaining self of None \<Rightarrow> [] | Some r \<Rightarrow> r)"

text \<open>
  \<^verbatim>\<open>recieveInternal(data, emitType)\<close>. The split is never empty, so
  \<^verbatim>\<open>parts.pop()\<close> and \<^verbatim>\<open>parts[0]\<close> are in range (\<open>split_not_Nil\<close> below).
\<close>

definition recieveInternal :: "string \<Rightarrow> emitType \<Rightarrow> PythonShell \<Rightarrow> PythonShell \<times> exn option" where
  "recieveInternal data ty self =
     (let parts = split (newline (platform (rt self))) data
      in if length parts = 1
         then (self\<lparr>remaining := Some (fragment self @ hd parts)\<rparr>, None)
         else
           (let lastLine = last parts;
                parts = butlast parts;
                parts = (fragment self @ hd parts) # tl parts
            in emit_parts ty parts (self\<lparr>remaining := Some lastLine\<rparr>)))"

definition receive :: "string \<Rightarrow> PythonShell \<Rightarrow> PythonShell \<times> exn option" where
  "receive data self = recieveInternal data Message self"

definition receiveStderr :: "string \<Rightarrow> PythonShell \<Rightarrow> PythonShell \<times> exn option" where
  "receiveStderr data self = recieveInternal data Stderr self"

section \<open>Ending and terminating\<close>

text \<open>\<^verbatim>\<open>end(callback)\<close>.\<close>

definition end_call :: "callback option \<Rightarrow> PythonShell \<Rightarrow> PythonShell" where
  "end_call cb self = self\<lparr>effects := effects self @ [StdinEnd], endCallback := cb\<rparr>"

text \<open>\<^verbatim>\<open>terminate(signal)\<close>.\<close>

definition terminate :: "string option \<Rightarrow> PythonShell \<Rightarrow> PythonShell" where
  "terminate signal self = self\<lparr>effects := effects self @ [Kill signal], terminated := True\<rparr>"

section \<open>The handlers the constructor installs, and runs of a session\<close>

text \<open>
  What reaches a session: data and the end of the two streams, the exit of the process
  with its code and signal, and the calls of \<^verbatim>\<open>send\<close>, \<^verbatim>\<open>end\<close>,
  \<^verbatim>\<open>terminate\<close> and \<^verbatim>\<open>on('error', ...)\<close>. The handler for stdout data is
  installed only when a parser is set.
\<close>

datatype input =
    StdoutData string
  | StderrData string
  | StdoutEnd
  | StderrEnd
  | Exit "int option" "string option"
  | CallSend jsval
  | CallEnd "callback option"
  | CallTerminate "string option"
  | OnError

fun step :: "input \<Rightarrow> PythonShell \<Rightarrow> PythonShell \<times> exn option" where
  "step (StdoutData data) self =
     (if parser self \<noteq> None then receive data self else (self, None))"
| "step (StderrData data) self =
     receiveStderr data (self\<lparr>errorData := errorData self @ data\<rparr>)"
| "step StderrEnd self = terminateIfNeeded (self\<lparr>stderrHasEnded := True\<rparr>)"
| "step StdoutEnd self = terminateIfNeeded (self\<lparr>stdoutHasEnded := True\<rparr>)"
| "step (Exit code signal) self =
     terminateIfNeeded (self\<lparr>exitCode := code, exitSignal := signal\<rparr>)"
| "step (CallSend msg) self = (send msg self, None)"
| "step (CallEnd cb) self = (end_call cb self, None)"
| "step (CallTerminate signal) self = (terminate signal self, None)"
| "step OnError self = (self\<lparr>errorListeners := Suc (errorListeners self)\<rparr>, None)"

text \<open>
  A run delivers the inputs one after the other, each handler running to its end
  before the next. An exception that leaves a handler is not caught by the program:
  the run stops there.
\<close>

fun run :: "input list \<Rightarrow> PythonShell \<Rightarrow> PythonShell \<times> exn option" where
  "run [] self = (self, None)"
| "run (i # ins) self =
     (case step i self of
        (self', None) \<Rightarrow> run ins self'
      | (self', Some e) \<Rightarrow> (self', Some e))"

section \<open>Notions the properties are stated with\<close>

text \<open>How often a session has emitted \<^verbatim>\<open>'close'\<close> and called its completion callback.\<close>

definition closes :: "PythonShell \<Rightarrow> nat" where
  "closes self = count_list (effects self) Emit_close"

fun is_callback :: "effect \<Rightarrow> bool" where
  "is_callback (EndCallback cb err code signal) = True"
| "is_callback e = False"

definition calls :: "PythonShell \<Rightarrow> nat" where
  "calls self = length (filter is_callback (effects self))"

text \<open>The six orders in which the three completion signals can arrive.\<close>

definition arrival_orders :: "int option \<Rightarrow> string option \<Rightarrow> input list list" where
  "arrival_orders code signal =
     [[StdoutEnd, StderrEnd, Exit code signal],
      [StdoutEnd, Exit code signal, StderrEnd],
      [StderrEnd, StdoutEnd, Exit code signal],
      [StderrEnd, Exit code signal, StdoutEnd],
      [Exit code signal, StdoutEnd, StderrEnd],
      [Exit code signal, StderrEnd, StdoutEnd]]"

text \<open>
  The exit whose error nobody handles: a code that is present and not zero, no
  listener for \<^verbatim>\<open>'error'\<close> and no completion callback.
\<close>

definition unhandled :: "int option \<Rightarrow> PythonShell \<Rightarrow> bool" where
  "unhandled code self =
     (code \<noteq> None \<and> code \<noteq> Some 0 \<and> errorListeners self = 0 \<and> endCallback self = None)"

text \<open>The session once both streams have ended and the exit is recorded.\<close>

definition converged :: "int option \<Rightarrow> string option \<Rightarrow> PythonShell \<Rightarrow> PythonShell" where
  "converged code signal self =
     self\<lparr>stderrHasEnded := True, stdoutHasEnded := True, exitCode := code, exitSignal := signal\<rparr>"

fun is_completion :: "input \<Rightarrow> bool" where
  "is_completion StdoutEnd = True"
| "is_completion StderrEnd = True"
| "is_completion (Exit code signal) = True"
| "is_completion i = False"

fun is_terminate :: "input \<Rightarrow> bool" where
  "is_terminate (CallTerminate signal) = True"
| "is_terminate i = False"

text \<open>A session without its \<open>terminated\<close> flag and its past effects.\<close>

definition forget :: "PythonShell \<Rightarrow> PythonShell" where
  "forget self = self\<lparr>terminated := False, effects := []\<rparr>"

text \<open>
  The exit is recorded; all three facts hold; and the lists of inputs in which every
  completion signal arrives at most once, none arrives after its fact is recorded,
  and an exit carries a code or a signal (the first three arguments say which facts
  are recorded already).
\<close>

definition exited :: "PythonShell \<Rightarrow> bool" where
  "exited self = (exitCode self \<noteq> None \<or> exitSignal self \<noteq> None)"

definition all_facts :: "PythonShell \<Rightarrow> bool" where
  "all_facts self = (stdoutHasEnded self \<and> stderrHasEnded self \<and> exited self)"

fun fresh_signals :: "bool \<Rightarrow> bool \<Rightarrow> bool \<Rightarrow> input list \<Rightarrow> bool" where
  "fresh_signals out err ex [] = True"
| "fresh_signals out err ex (StdoutEnd # ins) = (\<not> out \<and> fresh_signals True err ex ins)"
| "fresh_signals out err ex (StderrEnd # ins) = (\<not> err \<and> fresh_signals out True ex ins)"
| "fresh_signals out err ex (Exit code signal # ins) =
     (\<not> ex \<and> (code \<noteq> None \<or> signal \<noteq> None) \<and> fresh_signals out err True ins)"
| "fresh_signals out err ex (i # ins) = fresh_signals out err ex ins"

text \<open>
  The codec and the event of a stream, the decoding of a list of records up to the
  first one on which the codec throws, and the delivery of a list of chunks to one
  stream's receive path, which stops at the first exception.
\<close>

definition codec_of :: "emitType \<Rightarrow> PythonShell \<Rightarrow> (string \<Rightarrow> exn + jsval) option" where
  "codec_of ty self = (case ty of Message \<Rightarrow> parser self | Stderr \<Rightarrow> stderrParser self)"

definition emitted :: "emitType \<Rightarrow> jsval \<Rightarrow> effect" where
  "emitted ty v = (case ty of Message \<Rightarrow> Emit_message v | Stderr \<Rightarrow> Emit_stderr v)"

fun decode_parts :: "(string \<Rightarrow> exn + jsval) option \<Rightarrow> string list \<Rightarrow> jsval list \<times> exn option" where
  "decode_parts p [] = ([], None)"
| "decode_parts p (part # parts) =
     (case call_codec p part of
        Inl e \<Rightarrow> ([], Some e)
      | Inr v \<Rightarrow> (case decode_parts p parts of (vs, e) \<Rightarrow> (v # vs, e)))"

fun receive_all :: "emitType \<Rightarrow> string list \<Rightarrow> PythonShell \<Rightarrow> PythonShell \<times> exn option" where
  "receive_all ty [] self = (self, None)"
| "receive_all ty (data # chunks) self =
     (case recieveInternal data ty self of
        (self', None) \<Rightarrow> receive_all ty chunks self'
      | (self', Some e) \<Rightarrow> (self', Some e))"

text \<open>
  A text holds a complete record when splitting it at the terminator gives more than
  one piece, that is when the terminator occurs in it. The boundary between the
  buffered fragment and a chunk cuts a terminator when the fragment ends in the first
  part of the terminator and the chunk starts with the rest: this needs a terminator
  of two characters, so on Windows the fragment ends in a carriage return and the
  chunk starts with a line feed, and elsewhere it never happens.
\<close>

fun occurs :: "string \<Rightarrow> string \<Rightarrow> bool" where
  "occurs sep [] = False"
| "occurs sep (c # cs) = ((sep \<noteq> [] \<and> prefix sep (c # cs)) \<or> occurs sep cs)"

definition holds_record :: "string \<Rightarrow> string \<Rightarrow> bool" where
  "holds_record sep s = (length (split sep s) \<noteq> 1)"

definition cuts_terminator :: "platform \<Rightarrow> string \<Rightarrow> string \<Rightarrow> bool" where
  "cuts_terminator pf buffered data =
     (case pf of
        Posix \<Rightarrow> False
      | Win32 \<Rightarrow> suffix [CHR 0x0D] buffered \<and> prefix [CHR 0x0A] data)"

section \<open>A runtime and inputs for the examples\<close>

text \<open>
  The examples run in text mode or with codecs of their own, so the two JSON functions
  of this runtime are never called; its stack trace is the line \<^verbatim>\<open>Error: message\<close>.
\<close>

definition example_runtime :: "platform \<Rightarrow> runtime" where
  "example_runtime pf =
     \<lparr> platform = pf,
       JSON_stringify = (\<lambda>v. JSUndefined),
       JSON_parse = (\<lambda>s. Inl (CodecError ''SyntaxError'')),
       captureStack = (\<lambda>m. ''Error: '' @ m),
       path_join = (\<lambda>d p. d @ p) \<rparr>"

definition no_options :: Options where
  "no_options =
     \<lparr> opt_mode = None, opt_formatter = None, opt_parser = None, opt_stderrParser = None,
       opt_pythonPath = None, opt_pythonOptions = None, opt_scriptFolder = None,
       opt_args = None \<rparr>"

definition sample_traceback :: string where
  "sample_traceback =
     ''Traceback (most recent call last):\<newline>  File x.py, line 1\<newline>ValueError: bad\<newline>''"

text \<open>
  A fresh session in text mode; the same with a completion callback; one whose streams
  have ended and whose process exited with code 2; one whose process was killed by a
  signal after it wrote to stderr.
\<close>

definition example_shell :: PythonShell where
  "example_shell = new_PythonShell (example_runtime Posix) ''script.py'' no_options"

definition ending_shell :: PythonShell where
  "ending_shell = example_shell\<lparr>endCallback := Some 7\<rparr>"

definition failed_shell :: PythonShell where
  "failed_shell =
     example_shell\<lparr>stderrHasEnded := True, stdoutHasEnded := True, exitCode := Some 2,
       endCallback := Some 7, scriptArgs := [''--fast'']\<rparr>"

definition killed_shell :: PythonShell where
  "killed_shell =
     example_shell\<lparr>stderrHasEnded := True, stdoutHasEnded := True, exitSignal := Some ''SIGTERM'',
       endCallback := Some 7, errorData := ''warning: low memory''\<rparr>"

text \<open>
  A session that has buffered the fragment \<^verbatim>\<open>ab\<close>; a session whose parser accepts
  only the record \<^verbatim>\<open>ok\<close> and throws on every other; a session on Windows; a
  session in binary mode.
\<close>

definition buffering_shell :: PythonShell where
  "buffering_shell = example_shell\<lparr>remaining := Some ''ab''\<rparr>"

definition strict_parser :: "string \<Rightarrow> exn + jsval" where
  "strict_parser s = (if s = ''ok'' then Inr (JSStr s) else Inl (CodecError ''SyntaxError''))"

definition strict_shell :: PythonShell where
  "strict_shell =
     new_PythonShell (example_runtime Posix) ''script.py'' (no_options\<lparr>opt_parser := Some strict_parser\<rparr>)"

definition windows_shell :: PythonShell where
  "windows_shell = new_PythonShell (example_runtime Win32) ''script.py'' no_options"

text \<open>
  A session on Windows that has buffered the fragment \<^verbatim>\<open>a\<close> and a carriage return.
\<close>

definition windows_buffering_shell :: PythonShell where
  "windows_buffering_shell = windows_shell\<lparr>remaining := Some [CHR ''a'', CHR 0x0D]\<rparr>"

definition binary_shell :: PythonShell where
  "binary_shell =
     new_PythonShell (example_runtime Posix) ''script.py'' (no_options\<lparr>opt_mode := Some Binary\<rparr>)"

section \<open>Properties of the codecs and of sending\<close>

text \<open>A split is never empty: it has a last piece to pop and a first piece to extend.\<close>

lemma split_from_not_Nil: "split_from sep cur s \<noteq> []"
  by (induction sep cur s rule: split_from.induct) auto

lemma split_not_Nil: "split sep s \<noteq> []"
  by (simp add: split_def split_from_not_Nil)

text \<open>
  C9. The text formatter is the identity on every string. A value that is not a string
  is converted by its string representation when it is truthy; every falsy value
  (\<^verbatim>\<open>undefined\<close>, \<^verbatim>\<open>null\<close>, \<^verbatim>\<open>false\<close>, \<^verbatim>\<open>0\<close>, \<^verbatim>\<open>NaN\<close>) becomes the
  empty string, by the guard \<^verbatim>\<open>if (!data) return ''\<close>.
\<close>

theorem toText_spec:
  "toText (JSStr s) = JSStr s \<and>
   (\<not> is_string v \<longrightarrow> toText v = JSStr (if truthy v then js_to_string v else []))"
  by (cases "s = []") (simp_all add: toText_def)

text \<open>
  The formatter at a string, the empty string, two numbers, an object and
  \<^verbatim>\<open>null\<close>.
\<close>

theorem toText_spec_witness:
  "toText (JSStr ''hello'') = JSStr ''hello'' \<and> toText (JSStr []) = JSStr [] \<and>
   toText (JSNum 42) = JSStr ''42'' \<and> toText (JSNum 0) = JSStr [] \<and>
   toText (JSObj ''[object Object]'') = JSStr ''[object Object]'' \<and> toText JSNull = JSStr []"
  using toText_spec [of "''hello''" "JSNum 42"] toText_spec [of "[]" "JSNum 0"]
    toText_spec [of "[]" "JSObj ''[object Object]''"] toText_spec [of "[]" JSNull]
  by (simp add: string_of_int_def digits.simps digit_char_def)

text \<open>
  The value \<^verbatim>\<open>false\<close> is not a string and its string representation is
  \<^verbatim>\<open>'false'\<close>, yet the formatter returns the empty string.
\<close>

theorem toText_falsy_counterexample:
  "\<not> is_string (JSBool False) \<and> toText (JSBool False) = JSStr [] \<and>
   js_to_string (JSBool False) = ''false'' \<and>
   toText (JSBool False) \<noteq> JSStr (js_to_string (JSBool False))"
  by (simp add: toText_def)

text \<open>
  C8. \<^verbatim>\<open>send(message)\<close> encodes the message with the session's formatter (the
  message itself when no formatter is set), appends the line terminator once in the
  text and JSON modes and nothing in binary mode, and writes the result to the
  process's input; nothing else changes. A session made in text mode without a
  formatter of its own writes \<^verbatim>\<open>hello\<close> and one line terminator for
  \<^verbatim>\<open>send('hello')\<close>.
\<close>

theorem send_writes_line:
  "send msg self =
     self\<lparr>effects := effects self @
       [StdinWrite
         (if mode self = Binary
          then (case formatter self of Some f \<Rightarrow> f msg | None \<Rightarrow> msg)
          else JSStr (js_to_string (case formatter self of Some f \<Rightarrow> f msg | None \<Rightarrow> msg)
                      @ newline (platform (rt self))))]\<rparr>
   \<and> (opt_formatter opts = None \<and> (opt_mode opts = None \<or> opt_mode opts = Some Text) \<longrightarrow>
        effects (send (JSStr ''hello'') (new_PythonShell r path opts))
          = [StdinWrite (JSStr (''hello'' @ newline (platform r)))])"
  by (auto simp add: send_def Let_def new_PythonShell_def resolve_def format_table_def toText_def)

text \<open>
  \<^verbatim>\<open>send('hello')\<close> in text mode on both platforms, and \<^verbatim>\<open>send('raw')\<close> in
  binary mode.
\<close>

theorem send_writes_line_witness:
  "effects (send (JSStr ''hello'') (new_PythonShell (example_runtime Posix) ''script.py'' no_options))
     = [StdinWrite (JSStr [CHR ''h'', CHR ''e'', CHR ''l'', CHR ''l'', CHR ''o'', CHR 0x0A])] \<and>
   effects (send (JSStr ''hello'') (new_PythonShell (example_runtime Win32) ''script.py'' no_options))
     = [StdinWrite (JSStr [CHR ''h'', CHR ''e'', CHR ''l'', CHR ''l'', CHR ''o'', CHR 0x0D, CHR 0x0A])] \<and>
   effects (send (JSStr ''raw'')
       (new_PythonShell (example_runtime Posix) ''script.py'' (no_options\<lparr>opt_mode := Some Binary\<rparr>)))
     = [StdinWrite (JSStr ''raw'')]"
  using send_writes_line [of "JSStr ''hello''" "new_PythonShell (example_runtime Posix) ''script.py'' no_options"
      no_options "example_runtime Posix" "''script.py''"]
    send_writes_line [of "JSStr ''hello''" "new_PythonShell (example_runtime Win32) ''script.py'' no_options"
      no_options "example_runtime Win32" "''script.py''"]
    send_writes_line [of "JSStr ''raw''"
      "new_PythonShell (example_runtime Posix) ''script.py'' (no_options\<lparr>opt_mode := Some Binary\<rparr>)"
      no_options "example_runtime Posix" "''script.py''"]
  by (simp add: no_options_def example_runtime_def newline_def new_PythonShell_def Let_def
      resolve_def format_table_def)

section \<open>Properties of the error parser\<close>

lemma split_sample:
  "split [CHR 0x0A] (trim sample_traceback) =
     [''Traceback (most recent call last):'', ''  File x.py, line 1'', ''ValueError: bad'']"
  by (simp add: sample_traceback_def trim_def is_space_def split_def)

text \<open>
  C3. For stderr text that starts with \<^verbatim>\<open>Traceback\<close>, the error's message is the
  last line of the trimmed text, its \<open>traceback\<close> field is the whole stderr text as it
  was received, and the lines between the first and the last, joined by a line
  terminator and two spaces, are appended to the error's stack after a header line.
  Without the marker the whole text is the message and there is no \<open>traceback\<close>
  field. The error built at a non-zero exit keeps these three fields.
\<close>

theorem parseError_spec:
  "(prefix ''Traceback'' data \<longrightarrow>
      message (parseError r data) = last (split (newline (platform r)) (trim data)) \<and>
      traceback (parseError r data) = Some data \<and>
      stack (parseError r data) =
        captureStack r (last (split (newline (platform r)) (trim data)))
        @ newline (platform r) @ ''    ----- Python Traceback -----'' @ newline (platform r) @ ''  ''
        @ join (newline (platform r) @ ''  '')
            (drop 1 (butlast (split (newline (platform r)) (trim data)))))
   \<and> (\<not> prefix ''Traceback'' data \<longrightarrow>
      message (parseError r data) = data \<and> traceback (parseError r data) = None \<and>
      stack (parseError r data) = captureStack r data)
   \<and> (prefix ''Traceback'' (errorData self) \<longrightarrow>
      message (exit_error self code) = message (parseError (rt self) (errorData self)) \<and>
      traceback (exit_error self code) = Some (errorData self) \<and>
      stack (exit_error self code) = stack (parseError (rt self) (errorData self)))"
proof -
  have "prefix ''Traceback'' (errorData self) \<Longrightarrow> errorData self \<noteq> []"
    by auto
  then show ?thesis
    by (auto simp add: parseError_def Let_def new_PythonShellError_def exit_error_def)
qed

text \<open>
  The parser at the sample traceback and at a text without the marker, and the error
  of a session that exits with code 1 after the sample traceback.
\<close>

theorem parseError_spec_witness:
  "message (parseError (example_runtime Posix) sample_traceback) = ''ValueError: bad'' \<and>
   traceback (parseError (example_runtime Posix) sample_traceback) = Some sample_traceback \<and>
   stack (parseError (example_runtime Posix) sample_traceback) =
     ''Error: ValueError: bad\<newline>    ----- Python Traceback -----\<newline>    File x.py, line 1'' \<and>
   message (parseError (example_runtime Posix) ''Segmentation fault'') = ''Segmentation fault'' \<and>
   traceback (parseError (example_runtime Posix) ''Segmentation fault'') = None \<and>
   message (exit_error
      ((new_PythonShell (example_runtime Posix) ''script.py'' no_options)\<lparr>errorData := sample_traceback\<rparr>) 1)
     = ''ValueError: bad''"
proof -
  have p: "prefix ''Traceback'' sample_traceback"
    by (simp add: sample_traceback_def)
  have q: "\<not> prefix ''Traceback'' ''Segmentation fault''"
    by simp
  have r: "rt (new_PythonShell (example_runtime Posix) ''script.py'' no_options) = example_runtime Posix"
    by (simp add: new_PythonShell_def Let_def)
  show ?thesis
    using p q r parseError_spec [of sample_traceback "example_runtime Posix"
        "(new_PythonShell (example_runtime Posix) ''script.py'' no_options)\<lparr>errorData := sample_traceback\<rparr>" 1]
      parseError_spec [of "''Segmentation fault''" "example_runtime Posix"]
    by (simp add: example_runtime_def newline_def split_sample)
qed

text \<open>
  At the sample traceback the \<open>traceback\<close> field is the whole text, marker line and
  exception line included, and not the one line that stands between them.
\<close>

theorem parseError_traceback_counterexample:
  "prefix ''Traceback'' sample_traceback \<and>
   traceback (parseError (example_runtime Posix) sample_traceback) = Some sample_traceback \<and>
   drop 1 (butlast (split (newline Posix) (trim sample_traceback))) = [''  File x.py, line 1''] \<and>
   traceback (parseError (example_runtime Posix) sample_traceback)
     \<noteq> Some (join (newline Posix) (drop 1 (butlast (split (newline Posix) (trim sample_traceback)))))"
proof -
  have p: "prefix ''Traceback'' sample_traceback"
    by (simp add: sample_traceback_def)
  have t: "traceback (parseError (example_runtime Posix) sample_traceback) = Some sample_traceback"
    using p by (simp add: parseError_def Let_def new_PythonShellError_def)
  have d: "drop 1 (butlast (split (newline Posix) (trim sample_traceback))) = [''  File x.py, line 1'']"
    by (simp add: split_sample newline_def)
  have n: "sample_traceback \<noteq> ''  File x.py, line 1''"
    by (simp add: sample_traceback_def)
  show ?thesis using p t d n by simp
qed

section \<open>Properties of the lifecycle\<close>

subsection \<open>The four outcomes of the convergence check\<close>

lemma terminateIfNeeded_waits:
  "\<not> stderrHasEnded self \<or> \<not> stdoutHasEnded self \<or> (exitCode self = None \<and> exitSignal self = None)
   \<Longrightarrow> terminateIfNeeded self = (self, None)"
  by (simp add: terminateIfNeeded_def)

lemma terminateIfNeeded_clean:
  assumes "stderrHasEnded self" "stdoutHasEnded self"
    and "exitCode self = None \<and> exitSignal self \<noteq> None \<or> exitCode self = Some 0"
  shows "terminateIfNeeded self =
     (self\<lparr>terminated := True,
           effects := effects self @ Emit_close #
             (case endCallback self of None \<Rightarrow> []
              | Some cb \<Rightarrow> [EndCallback cb None (exitCode self) (exitSignal self)])\<rparr>, None)"
  using assms
  by (auto simp add: terminateIfNeeded_def finish_def emit_def Let_def split: option.splits)

lemma terminateIfNeeded_failed:
  assumes "stderrHasEnded self" "stdoutHasEnded self" "exitCode self = Some c" "c \<noteq> 0"
    and "errorListeners self \<noteq> 0 \<or> endCallback self \<noteq> None"
  shows "terminateIfNeeded self =
     (self\<lparr>terminated := True,
           effects := effects self
             @ (if errorListeners self \<noteq> 0 then [Emit_error (exit_error self c)] else [])
             @ Emit_close #
               (case endCallback self of None \<Rightarrow> []
                | Some cb \<Rightarrow> [EndCallback cb (Some (exit_error self c)) (Some c) (exitSignal self)])\<rparr>,
      None)"
  using assms
  by (auto simp add: terminateIfNeeded_def finish_def emit_def emit_error_def Let_def
      split: option.splits)

lemma terminateIfNeeded_unhandled:
  assumes "stderrHasEnded self" "stdoutHasEnded self" "exitCode self = Some c" "c \<noteq> 0"
    and "errorListeners self = 0" "endCallback self = None"
  shows "terminateIfNeeded self =
     (self\<lparr>effects := effects self @ [Emit_error (exit_error self c)]\<rparr>,
      Some (UnhandledError (exit_error self c)))"
  using assms
  by (simp add: terminateIfNeeded_def emit_def emit_error_def Let_def)

subsection \<open>Every arrival order leads to the same check\<close>

lemma arrival_orders_sound:
  "xs \<in> set (arrival_orders code signal) \<Longrightarrow>
     distinct xs \<and> set xs = {StdoutEnd, StderrEnd, Exit code signal}"
  by (auto simp add: arrival_orders_def)

lemma arrival_orders_complete:
  assumes d: "distinct xs" and s: "set xs = {StdoutEnd, StderrEnd, Exit code signal}"
  shows "xs \<in> set (arrival_orders code signal)"
proof -
  have "length xs = card (set xs)"
    using d by (simp add: distinct_card)
  also have "\<dots> = 3"
    by (simp add: s)
  finally obtain x y z where xs: "xs = [x, y, z]"
    by (auto simp add: numeral_3_eq_3 length_Suc_conv)
  from s xs have mem: "x \<in> {StdoutEnd, StderrEnd, Exit code signal}"
    "y \<in> {StdoutEnd, StderrEnd, Exit code signal}" "z \<in> {StdoutEnd, StderrEnd, Exit code signal}"
    by auto
  from d xs have ne: "x \<noteq> y" "x \<noteq> z" "y \<noteq> z"
    by auto
  from mem ne show ?thesis
    unfolding xs arrival_orders_def by auto
qed

lemma run_prefix_waits:
  assumes "\<not> stdoutHasEnded self" "\<not> stderrHasEnded self" "exitCode self = None" "exitSignal self = None"
    and "order \<in> set (arrival_orders code signal)"
  shows "snd (run (take 1 order) self) = None \<and> effects (fst (run (take 1 order) self)) = effects self
    \<and> snd (run (take 2 order) self) = None \<and> effects (fst (run (take 2 order) self)) = effects self"
  using assms by (auto simp add: arrival_orders_def terminateIfNeeded_waits)

lemma converged_orders:
  "self\<lparr>stdoutHasEnded := True, stderrHasEnded := True, exitCode := code, exitSignal := signal\<rparr>
     = converged code signal self"
  "self\<lparr>stdoutHasEnded := True, exitCode := code, exitSignal := signal, stderrHasEnded := True\<rparr>
     = converged code signal self"
  "self\<lparr>stderrHasEnded := True, exitCode := code, exitSignal := signal, stdoutHasEnded := True\<rparr>
     = converged code signal self"
  "self\<lparr>exitCode := code, exitSignal := signal, stdoutHasEnded := True, stderrHasEnded := True\<rparr>
     = converged code signal self"
  "self\<lparr>exitCode := code, exitSignal := signal, stderrHasEnded := True, stdoutHasEnded := True\<rparr>
     = converged code signal self"
  by (cases self; simp add: converged_def)+

lemma run_arrival_order:
  assumes "\<not> stdoutHasEnded self" "\<not> stderrHasEnded self" "exitCode self = None" "exitSignal self = None"
    and "order \<in> set (arrival_orders code signal)"
  shows "run order self = terminateIfNeeded (converged code signal self)"
  using assms
  by (auto simp add: arrival_orders_def terminateIfNeeded_waits converged_orders converged_def
      split: prod.splits option.splits)

lemma closes_converged:
  assumes "code \<noteq> None \<or> signal \<noteq> None"
  shows "closes (fst (terminateIfNeeded (converged code signal self)))
           = closes self + (if unhandled code self then 0 else 1)
     \<and> (snd (terminateIfNeeded (converged code signal self)) = None) = (\<not> unhandled code self)
     \<and> calls (fst (terminateIfNeeded (converged code signal self)))
           = calls self + (if endCallback self = None then 0 else 1)"
proof (cases "unhandled code self")
  case True
  then obtain c where c: "code = Some c" "c \<noteq> 0" "errorListeners self = 0" "endCallback self = None"
    by (auto simp add: unhandled_def)
  then show ?thesis
    using True by (simp add: terminateIfNeeded_unhandled converged_def closes_def calls_def)
next
  case False
  let ?s = "converged code signal self"
  have f: "stderrHasEnded ?s" "stdoutHasEnded ?s" "exitCode ?s = code" "exitSignal ?s = signal"
    "errorListeners ?s = errorListeners self" "endCallback ?s = endCallback self"
    "effects ?s = effects self"
    by (simp_all add: converged_def)
  show ?thesis
  proof (cases "code = None \<or> code = Some 0")
    case True
    with assms have "exitCode ?s = None \<and> exitSignal ?s \<noteq> None \<or> exitCode ?s = Some 0"
      by (auto simp add: f)
    from terminateIfNeeded_clean [OF f(1,2) this] show ?thesis
      using False by (simp add: f closes_def calls_def split: option.splits)
  next
    case nz: False
    then obtain c where c: "code = Some c" "c \<noteq> 0" by auto
    with False have h: "errorListeners ?s \<noteq> 0 \<or> endCallback ?s \<noteq> None"
      by (auto simp add: unhandled_def converged_def)
    have "exitCode ?s = Some c"
      using c by (simp add: converged_def)
    from terminateIfNeeded_failed [OF f(1,2) this c(2) h] show ?thesis
      using False by (simp add: f closes_def calls_def split: option.splits)
  qed
qed

subsection \<open>Calls of terminate change neither the events nor the callback's calls\<close>

lemma exit_error_forget: "exit_error (forget self) c = exit_error self c"
  by (simp add: exit_error_def forget_def)

lemma forget_fields:
  "stderrHasEnded (forget self) = stderrHasEnded self"
  "stdoutHasEnded (forget self) = stdoutHasEnded self"
  "exitCode (forget self) = exitCode self"
  "exitSignal (forget self) = exitSignal self"
  "errorListeners (forget self) = errorListeners self"
  "endCallback (forget self) = endCallback self"
  "effects (forget self) = []"
  by (simp_all add: forget_def)

lemma forget_result:
  "forget (self\<lparr>terminated := t, effects := es\<rparr>) = forget self"
  "forget (self\<lparr>effects := es\<rparr>) = forget self"
  "forget (self\<lparr>terminated := t\<rparr>) = forget self"
  by (simp_all add: forget_def)

lemma terminateIfNeeded_forget:
  "snd (terminateIfNeeded self) = snd (terminateIfNeeded (forget self))
   \<and> effects (fst (terminateIfNeeded self)) = effects self @ effects (fst (terminateIfNeeded (forget self)))
   \<and> forget (fst (terminateIfNeeded self)) = forget self"
proof -
  consider
    (waits) "\<not> stderrHasEnded self \<or> \<not> stdoutHasEnded self \<or> (exitCode self = None \<and> exitSignal self = None)"
  | (clean) "stderrHasEnded self" "stdoutHasEnded self"
      "exitCode self = None \<and> exitSignal self \<noteq> None \<or> exitCode self = Some 0"
  | (failed) c where "stderrHasEnded self" "stdoutHasEnded self" "exitCode self = Some c" "c \<noteq> 0"
      "errorListeners self \<noteq> 0 \<or> endCallback self \<noteq> None"
  | (unhandled) c where "stderrHasEnded self" "stdoutHasEnded self" "exitCode self = Some c" "c \<noteq> 0"
      "errorListeners self = 0" "endCallback self = None"
    by (cases "exitCode self") fastforce+
  then show ?thesis
  proof cases
    case waits
    then have "terminateIfNeeded self = (self, None)" "terminateIfNeeded (forget self) = (forget self, None)"
      by (simp_all add: terminateIfNeeded_waits forget_fields)
    then show ?thesis
      by (simp add: forget_fields)
  next
    case clean
    from terminateIfNeeded_clean [of self] terminateIfNeeded_clean [of "forget self"] clean
    show ?thesis
      by (simp add: forget_fields forget_result cong: option.case_cong)
  next
    case failed
    from terminateIfNeeded_failed [of self c] terminateIfNeeded_failed [of "forget self" c] failed
    show ?thesis
      by (simp add: forget_fields forget_result exit_error_forget cong: option.case_cong)
  next
    case unhandled
    from terminateIfNeeded_unhandled [of self c] terminateIfNeeded_unhandled [of "forget self" c] unhandled
    show ?thesis
      by (simp add: forget_fields forget_result exit_error_forget cong: option.case_cong)
  qed
qed

lemma step_completion_forget:
  assumes "is_completion i"
  shows "snd (step i self) = snd (step i (forget self))
   \<and> effects (fst (step i self)) = effects self @ effects (fst (step i (forget self)))
   \<and> forget (fst (step i self)) = forget (fst (step i (forget self)))"
proof -
  have f: "\<And>t. forget (forget t) = forget t"
    by (simp add: forget_def)
  have u: "(forget self)\<lparr>stdoutHasEnded := True\<rparr> = forget (self\<lparr>stdoutHasEnded := True\<rparr>)"
    "(forget self)\<lparr>stderrHasEnded := True\<rparr> = forget (self\<lparr>stderrHasEnded := True\<rparr>)"
    "\<And>c g. (forget self)\<lparr>exitCode := c, exitSignal := g\<rparr> = forget (self\<lparr>exitCode := c, exitSignal := g\<rparr>)"
    by (simp_all add: forget_def)
  have k: "snd (terminateIfNeeded t) = snd (terminateIfNeeded (forget t))
   \<and> effects (fst (terminateIfNeeded t)) = effects t @ effects (fst (terminateIfNeeded (forget t)))
   \<and> forget (fst (terminateIfNeeded t)) = forget (fst (terminateIfNeeded (forget t)))" for t
    using terminateIfNeeded_forget [of t]
      terminateIfNeeded_forget [of "forget t", THEN conjunct2, THEN conjunct2]
    by (simp add: f)
  show ?thesis
  proof (cases i)
    case StdoutEnd
    then show ?thesis
      using k [of "self\<lparr>stdoutHasEnded := True\<rparr>"] by (simp only: step.simps u) simp
  next
    case StderrEnd
    then show ?thesis
      using k [of "self\<lparr>stderrHasEnded := True\<rparr>"] by (simp only: step.simps u) simp
  next
    case (Exit c g)
    then show ?thesis
      using k [of "self\<lparr>exitCode := c, exitSignal := g\<rparr>"] by (simp only: step.simps u) simp
  qed (use assms in simp_all)
qed

lemma run_completions_forget:
  "list_all is_completion ins \<Longrightarrow>
     snd (run ins self) = snd (run ins (forget self))
   \<and> effects (fst (run ins self)) = effects self @ effects (fst (run ins (forget self)))
   \<and> forget (fst (run ins self)) = forget (fst (run ins (forget self)))"
proof (induction ins arbitrary: self)
  case Nil
  then show ?case by (simp add: forget_def)
next
  case (Cons i ins)
  then have i: "is_completion i" and ins: "list_all is_completion ins"
    by simp_all
  obtain s1 e1 where s1: "step i self = (s1, e1)"
    by (cases "step i self")
  obtain c1 d1 where c1: "step i (forget self) = (c1, d1)"
    by (cases "step i (forget self)")
  from step_completion_forget [OF i, of self] s1 c1
  have rel: "e1 = d1" "effects s1 = effects self @ effects c1" "forget s1 = forget c1"
    by simp_all
  show ?case
  proof (cases e1)
    case None
    from Cons.IH [OF ins, of s1] Cons.IH [OF ins, of c1] rel
    show ?thesis
      using s1 c1 None by simp
  next
    case (Some e)
    then show ?thesis
      using s1 c1 rel by simp
  qed
qed

lemma run_terminate_forget:
  "list_all (\<lambda>i. is_completion i \<or> is_terminate i) ins \<Longrightarrow>
     snd (run ins self) = snd (run (filter is_completion ins) (forget self))
   \<and> closes (fst (run ins self)) = closes self + closes (fst (run (filter is_completion ins) (forget self)))
   \<and> calls (fst (run ins self)) = calls self + calls (fst (run (filter is_completion ins) (forget self)))"
proof (induction ins arbitrary: self)
  case Nil
  then show ?case by (simp add: forget_def closes_def calls_def)
next
  case (Cons i ins)
  then have ins: "list_all (\<lambda>i. is_completion i \<or> is_terminate i) ins"
    by simp
  have fc: "list_all is_completion (filter is_completion ins)"
    by (simp add: list_all_iff)
  show ?case
  proof (cases "is_completion i")
    case True
    obtain s1 e1 where s1: "step i self = (s1, e1)"
      by (cases "step i self")
    obtain c1 d1 where c1: "step i (forget self) = (c1, d1)"
      by (cases "step i (forget self)")
    from step_completion_forget [OF True, of self] s1 c1
    have rel: "e1 = d1" "effects s1 = effects self @ effects c1" "forget s1 = forget c1"
      by simp_all
    show ?thesis
    proof (cases e1)
      case None
      from Cons.IH [OF ins, of s1] run_completions_forget [OF fc, of c1] rel
      show ?thesis
        using s1 c1 None True by (simp add: closes_def calls_def)
    next
      case (Some e)
      then show ?thesis
        using s1 c1 rel True by (simp add: closes_def calls_def)
    qed
  next
    case False
    with Cons.prems obtain g where g: "i = CallTerminate g"
      by (cases i) simp_all
    have "forget (terminate g self) = forget self"
      "closes (terminate g self) = closes self" "calls (terminate g self) = calls self"
      by (simp_all add: terminate_def forget_def closes_def calls_def)
    with Cons.IH [OF ins, of "terminate g self"] show ?thesis
      using g by simp
  qed
qed

lemma example_shell_fields:
  "stdoutHasEnded example_shell = False" "stderrHasEnded example_shell = False"
  "exitCode example_shell = None" "exitSignal example_shell = None"
  "errorListeners example_shell = 0" "endCallback example_shell = None"
  "effects example_shell = []" "errorData example_shell = []"
  "terminated example_shell = False"
  by (simp_all add: example_shell_def new_PythonShell_def Let_def)

subsection \<open>The terminal transition\<close>

text \<open>
  C1. On a session where none of the three facts holds yet, let stdout end, stderr end
  and the exit (with a code or a signal) arrive once each, in any order. Every order
  ends in the one convergence check on the session with all three facts recorded. It
  emits \<^verbatim>\<open>'close'\<close> exactly once, unless the exit code is not zero while neither
  an \<^verbatim>\<open>'error'\<close> listener nor a completion callback is registered: then
  \<^verbatim>\<open>emit('error', err)\<close> throws and \<^verbatim>\<open>'close'\<close> is not emitted. After the first
  and after the second signal nothing has been emitted, and a convergence check on
  any session that lacks one of the facts returns it unchanged.
\<close>

theorem close_after_convergence:
  assumes "\<not> stdoutHasEnded self" "\<not> stderrHasEnded self" "exitCode self = None" "exitSignal self = None"
    and "code \<noteq> None \<or> signal \<noteq> None"
    and "distinct order" "set order = {StdoutEnd, StderrEnd, Exit code signal}"
  shows "run order self = terminateIfNeeded (converged code signal self)
     \<and> closes (fst (run order self)) = closes self + (if unhandled code self then 0 else 1)
     \<and> (snd (run order self) = None) = (\<not> unhandled code self)
     \<and> run (take 0 order) self = (self, None)
     \<and> snd (run (take 1 order) self) = None \<and> effects (fst (run (take 1 order) self)) = effects self
     \<and> snd (run (take 2 order) self) = None \<and> effects (fst (run (take 2 order) self)) = effects self
     \<and> (\<forall>t. \<not> stderrHasEnded t \<or> \<not> stdoutHasEnded t \<or> (exitCode t = None \<and> exitSignal t = None)
            \<longrightarrow> terminateIfNeeded t = (t, None))"
proof -
  have o: "order \<in> set (arrival_orders code signal)"
    using assms(6,7) by (rule arrival_orders_complete)
  show ?thesis
    using run_arrival_order [OF assms(1-4) o] closes_converged [OF assms(5), of self]
      run_prefix_waits [OF assms(1-4) o] terminateIfNeeded_waits
    by simp
qed

text \<open>
  A fresh session at which stderr ends, the process exits with code 0 and stdout ends,
  in this order.
\<close>

theorem close_after_convergence_witness:
  "closes (fst (run [StderrEnd, Exit (Some 0) None, StdoutEnd] example_shell)) = 1
   \<and> snd (run [StderrEnd, Exit (Some 0) None, StdoutEnd] example_shell) = None
   \<and> effects (fst (run [StderrEnd, Exit (Some 0) None] example_shell)) = []
   \<and> effects (fst (run [StderrEnd] example_shell)) = []"
proof -
  have o: "distinct [StderrEnd, Exit (Some 0) None, StdoutEnd]"
    "set [StderrEnd, Exit (Some 0) None, StdoutEnd] = {StdoutEnd, StderrEnd, Exit (Some 0) None}"
    by auto
  have c: "Some (0::int) \<noteq> None \<or> (None::string option) \<noteq> None"
    by simp
  have f: "\<not> stdoutHasEnded example_shell" "\<not> stderrHasEnded example_shell"
    by (simp_all add: example_shell_fields)
  show ?thesis
    using close_after_convergence [OF f example_shell_fields(3,4) c o, THEN conjunct2]
    by (simp add: example_shell_fields unhandled_def closes_def del: run.simps step.simps)
qed

text \<open>
  A fresh session has no \<^verbatim>\<open>'error'\<close> listener and no completion callback. When
  its process exits with code 1, the last of the three signals throws the error and
  \<^verbatim>\<open>'close'\<close> is never emitted.
\<close>

theorem close_unhandled_counterexample:
  "distinct [StdoutEnd, StderrEnd, Exit (Some 1) None]
   \<and> closes (fst (run [StdoutEnd, StderrEnd, Exit (Some 1) None] example_shell)) = 0
   \<and> snd (run [StdoutEnd, StderrEnd, Exit (Some 1) None] example_shell) \<noteq> None
   \<and> \<not> terminated (fst (run [StdoutEnd, StderrEnd, Exit (Some 1) None] example_shell))"
  by (simp add: example_shell_fields terminateIfNeeded_waits
      terminateIfNeeded_unhandled closes_def)

text \<open>
  C4. At the terminal transition an error is built exactly when the exit code is
  present and not zero: from the error parser when stderr text was received, with
  the message \<^verbatim>\<open>process exited with code N\<close> otherwise, and with the executable,
  the interpreter options, the script, the script arguments (\<^verbatim>\<open>null\<close> for an empty
  list) and the exit code attached. It is emitted as \<^verbatim>\<open>'error'\<close> exactly when an
  \<^verbatim>\<open>'error'\<close> listener is registered or no completion callback is, before
  \<^verbatim>\<open>'close'\<close>, and it is what the callback receives; with neither a listener nor
  a callback the call of \<^verbatim>\<open>emit\<close> throws the error and nothing follows it. With
  no exit code or the code 0 no error is emitted and the callback receives none.
\<close>

theorem terminal_error_spec:
  assumes "stderrHasEnded self" "stdoutHasEnded self" "exitCode self \<noteq> None \<or> exitSignal self \<noteq> None"
  shows
    "(\<forall>c. exitCode self = Some c \<and> c \<noteq> 0 \<longrightarrow>
        effects (fst (terminateIfNeeded self)) =
          effects self
          @ (if errorListeners self \<noteq> 0 \<or> endCallback self = None
             then [Emit_error (exit_error self c)] else [])
          @ (if errorListeners self = 0 \<and> endCallback self = None then []
             else Emit_close #
               (case endCallback self of None \<Rightarrow> []
                | Some cb \<Rightarrow> [EndCallback cb (Some (exit_error self c)) (Some c) (exitSignal self)]))
        \<and> message (exit_error self c) =
            (if errorData self \<noteq> [] then message (parseError (rt self) (errorData self))
             else ''process exited with code '' @ string_of_int c)
        \<and> traceback (exit_error self c) =
            (if errorData self \<noteq> [] then traceback (parseError (rt self) (errorData self)) else None)
        \<and> stack (exit_error self c) =
            (if errorData self \<noteq> [] then stack (parseError (rt self) (errorData self))
             else captureStack (rt self) (''process exited with code '' @ string_of_int c))
        \<and> executable (exit_error self c) = Some (pythonPath self)
        \<and> options (exit_error self c) = (if pythonOptions self \<noteq> [] then Some (pythonOptions self) else None)
        \<and> script (exit_error self c) = Some (scriptPath self)
        \<and> args (exit_error self c) = (if scriptArgs self \<noteq> [] then Some (scriptArgs self) else None)
        \<and> errExitCode (exit_error self c) = Some c)
     \<and> (exitCode self = None \<or> exitCode self = Some 0 \<longrightarrow>
        effects (fst (terminateIfNeeded self)) =
          effects self @ Emit_close #
            (case endCallback self of None \<Rightarrow> []
             | Some cb \<Rightarrow> [EndCallback cb None (exitCode self) (exitSignal self)]))"
proof (intro conjI allI impI)
  fix c assume c: "exitCode self = Some c \<and> c \<noteq> 0"
  show "effects (fst (terminateIfNeeded self)) =
          effects self
          @ (if errorListeners self \<noteq> 0 \<or> endCallback self = None
             then [Emit_error (exit_error self c)] else [])
          @ (if errorListeners self = 0 \<and> endCallback self = None then []
             else Emit_close #
               (case endCallback self of None \<Rightarrow> []
                | Some cb \<Rightarrow> [EndCallback cb (Some (exit_error self c)) (Some c) (exitSignal self)]))"
  proof (cases "errorListeners self = 0 \<and> endCallback self = None")
    case True
    with assms c show ?thesis
      by (simp add: terminateIfNeeded_unhandled)
  next
    case False
    then have "errorListeners self \<noteq> 0 \<or> endCallback self \<noteq> None"
      by simp
    from terminateIfNeeded_failed [OF assms(1,2) _ _ this, of c] c False show ?thesis
      by auto
  qed
next
  assume "exitCode self = None \<or> exitCode self = Some 0"
  with assms have "exitCode self = None \<and> exitSignal self \<noteq> None \<or> exitCode self = Some 0"
    by auto
  from terminateIfNeeded_clean [OF assms(1,2) this]
  show "effects (fst (terminateIfNeeded self)) =
          effects self @ Emit_close #
            (case endCallback self of None \<Rightarrow> []
             | Some cb \<Rightarrow> [EndCallback cb None (exitCode self) (exitSignal self)])"
    by simp
qed (simp_all add: exit_error_def Let_def new_PythonShellError_def)

text \<open>
  The session that exited with code 2 and has a completion callback: as it is, with an
  \<^verbatim>\<open>'error'\<close> listener, with the exit code 0 instead, and after the text
  \<^verbatim>\<open>Killed\<close> on stderr.
\<close>

theorem terminal_error_spec_witness:
  "effects (fst (terminateIfNeeded failed_shell)) =
     [Emit_close, EndCallback 7 (Some (exit_error failed_shell 2)) (Some 2) None]
   \<and> message (exit_error failed_shell 2) = ''process exited with code 2''
   \<and> executable (exit_error failed_shell 2) = Some ''python3''
   \<and> args (exit_error failed_shell 2) = Some [''--fast'']
   \<and> errExitCode (exit_error failed_shell 2) = Some 2
   \<and> effects (fst (terminateIfNeeded (failed_shell\<lparr>errorListeners := 1\<rparr>))) =
     [Emit_error (exit_error failed_shell 2), Emit_close,
      EndCallback 7 (Some (exit_error failed_shell 2)) (Some 2) None]
   \<and> effects (fst (terminateIfNeeded (failed_shell\<lparr>exitCode := Some 0\<rparr>))) =
     [Emit_close, EndCallback 7 None (Some 0) None]
   \<and> message (exit_error (failed_shell\<lparr>errorData := ''Killed''\<rparr>) 2) = ''Killed''"
proof -
  have f: "stderrHasEnded failed_shell" "stdoutHasEnded failed_shell"
    "exitCode failed_shell = Some 2" "exitSignal failed_shell = None"
    "errorListeners failed_shell = 0" "endCallback failed_shell = Some 7"
    "effects failed_shell = []" "errorData failed_shell = []"
    "pythonPath failed_shell = ''python3''" "scriptArgs failed_shell = [''--fast'']"
    by (simp_all add: failed_shell_def example_shell_fields)
      (simp_all add: example_shell_def new_PythonShell_def Let_def example_runtime_def
        defaultPythonPath_def no_options_def)
  have e: "exit_error (failed_shell\<lparr>errorListeners := 1\<rparr>) 2 = exit_error failed_shell 2"
    by (simp add: exit_error_def)
  have d: "string_of_int 2 = ''2''"
    by (simp add: string_of_int_def digits.simps digit_char_def)
  have k: "message (parseError r ''Killed'') = ''Killed''" for r
    by (simp add: parseError_def Let_def new_PythonShellError_def)
  show ?thesis
    using terminal_error_spec [of failed_shell] terminal_error_spec [of "failed_shell\<lparr>errorListeners := 1\<rparr>"]
      terminal_error_spec [of "failed_shell\<lparr>exitCode := Some 0\<rparr>"]
      terminal_error_spec [of "failed_shell\<lparr>errorData := ''Killed''\<rparr>"]
    by (simp add: f e d k)
qed

text \<open>
  C10. When both streams have ended and the process was killed by a signal, so that the
  exit code is \<^verbatim>\<open>null\<close> and the signal is recorded, the convergence check builds no
  error whatever was received on stderr: it sets the flag, emits \<^verbatim>\<open>'close'\<close> and
  calls the completion callback, when there is one, with no error, the
  \<^verbatim>\<open>null\<close> code and the signal.
\<close>

theorem signal_exit_spec:
  assumes "stderrHasEnded self" "stdoutHasEnded self" "exitCode self = None" "exitSignal self = Some sg"
  shows "terminateIfNeeded self =
     (self\<lparr>terminated := True,
           effects := effects self @ Emit_close #
             (case endCallback self of None \<Rightarrow> []
              | Some cb \<Rightarrow> [EndCallback cb None None (Some sg)])\<rparr>, None)"
  using terminateIfNeeded_clean [OF assms(1,2)] assms(3,4) by (simp cong: option.case_cong)

text \<open>The session that was killed by SIGTERM after a warning on stderr.\<close>

theorem signal_exit_spec_witness:
  "errorData killed_shell \<noteq> []
   \<and> terminateIfNeeded killed_shell =
     (killed_shell\<lparr>terminated := True,
        effects := [Emit_close, EndCallback 7 None None (Some ''SIGTERM'')]\<rparr>, None)"
proof -
  have f: "stderrHasEnded killed_shell" "stdoutHasEnded killed_shell"
    "exitCode killed_shell = None" "exitSignal killed_shell = Some ''SIGTERM''"
    "endCallback killed_shell = Some 7" "effects killed_shell = []"
    "errorData killed_shell = ''warning: low memory''"
    by (simp_all add: killed_shell_def example_shell_fields)
  show ?thesis
    using signal_exit_spec [of killed_shell "''SIGTERM''"] by (simp add: f)
qed

text \<open>
  C5. On a session where none of the three facts holds yet, let the three completion
  signals arrive once each, in any order, with any number of calls of
  \<^verbatim>\<open>terminate()\<close> before, between and after them. The completion callback is
  called once when one is registered and never otherwise, and \<^verbatim>\<open>'close'\<close> is
  emitted exactly once, unless the exit code is not zero while neither an
  \<^verbatim>\<open>'error'\<close> listener nor a completion callback is registered: then
  \<^verbatim>\<open>emit('error', err)\<close> throws and \<^verbatim>\<open>'close'\<close> is not emitted.
\<close>

theorem terminate_close_spec:
  assumes "\<not> stdoutHasEnded self" "\<not> stderrHasEnded self" "exitCode self = None" "exitSignal self = None"
    and "code \<noteq> None \<or> signal \<noteq> None"
    and "list_all (\<lambda>i. is_completion i \<or> is_terminate i) ins"
    and "distinct (filter is_completion ins)"
    and "set (filter is_completion ins) = {StdoutEnd, StderrEnd, Exit code signal}"
  shows "closes (fst (run ins self)) = closes self + (if unhandled code self then 0 else 1)
     \<and> calls (fst (run ins self)) = calls self + (if endCallback self = None then 0 else 1)
     \<and> (snd (run ins self) = None) = (\<not> unhandled code self)"
proof -
  let ?order = "filter is_completion ins"
  have o: "?order \<in> set (arrival_orders code signal)"
    using assms(7,8) by (rule arrival_orders_complete)
  have nf: "\<not> stdoutHasEnded (forget self)" "\<not> stderrHasEnded (forget self)"
    "exitCode (forget self) = None" "exitSignal (forget self) = None"
    using assms(1-4) by (simp_all add: forget_fields forget_def)
  have r: "run ?order (forget self) = terminateIfNeeded (converged code signal (forget self))"
    using nf o by (rule run_arrival_order)
  have k: "closes (fst (run ?order (forget self))) = (if unhandled code self then 0 else 1)"
    "(snd (run ?order (forget self)) = None) = (\<not> unhandled code self)"
    using closes_converged [OF assms(5), of "forget self"]
    by (simp_all add: r closes_def forget_fields unhandled_def)
  have c: "calls (fst (run ?order (forget self))) = (if endCallback self = None then 0 else 1)"
    using closes_converged [OF assms(5), of "forget self"]
    by (simp add: r calls_def forget_fields)
  show ?thesis
    using run_terminate_forget [OF assms(6), of self] k c by simp
qed

text \<open>
  A session with a completion callback that is terminated twice while its process dies
  of SIGTERM, and a fresh session that is terminated after its process exited with
  code 0.
\<close>

theorem terminate_close_spec_witness:
  "closes (fst (run [CallTerminate None, StdoutEnd, Exit None (Some ''SIGTERM''),
                     CallTerminate (Some ''SIGKILL''), StderrEnd] ending_shell)) = 1
   \<and> calls (fst (run [CallTerminate None, StdoutEnd, Exit None (Some ''SIGTERM''),
                     CallTerminate (Some ''SIGKILL''), StderrEnd] ending_shell)) = 1
   \<and> snd (run [CallTerminate None, StdoutEnd, Exit None (Some ''SIGTERM''),
                     CallTerminate (Some ''SIGKILL''), StderrEnd] ending_shell) = None
   \<and> closes (fst (run [StdoutEnd, StderrEnd, Exit (Some 0) None, CallTerminate None] example_shell)) = 1
   \<and> calls (fst (run [StdoutEnd, StderrEnd, Exit (Some 0) None, CallTerminate None] example_shell)) = 0"
proof -
  let ?a = "[CallTerminate None, StdoutEnd, Exit None (Some ''SIGTERM''),
             CallTerminate (Some ''SIGKILL''), StderrEnd]"
  let ?b = "[StdoutEnd, StderrEnd, Exit (Some 0) None, CallTerminate None]"
  have f: "\<not> stdoutHasEnded ending_shell" "\<not> stderrHasEnded ending_shell"
    "exitCode ending_shell = None" "exitSignal ending_shell = None"
    "endCallback ending_shell = Some 7" "effects ending_shell = []"
    by (simp_all add: ending_shell_def example_shell_fields)
  have g: "\<not> stdoutHasEnded example_shell" "\<not> stderrHasEnded example_shell"
    by (simp_all add: example_shell_fields)
  have a: "(None::int option) \<noteq> None \<or> Some ''SIGTERM'' \<noteq> None"
    "list_all (\<lambda>i. is_completion i \<or> is_terminate i) ?a"
    "distinct (filter is_completion ?a)"
    "set (filter is_completion ?a) = {StdoutEnd, StderrEnd, Exit None (Some ''SIGTERM'')}"
    by auto
  have b: "Some (0::int) \<noteq> None \<or> (None::string option) \<noteq> None"
    "list_all (\<lambda>i. is_completion i \<or> is_terminate i) ?b"
    "distinct (filter is_completion ?b)"
    "set (filter is_completion ?b) = {StdoutEnd, StderrEnd, Exit (Some 0) None}"
    by auto
  show ?thesis
    using terminate_close_spec [OF f(1-4) a] terminate_close_spec [OF g example_shell_fields(3,4) b]
    by (simp add: f example_shell_fields closes_def calls_def unhandled_def del: run.simps)
qed

text \<open>
  A fresh session is terminated, but its process exits by itself with code 1: the last
  signal throws the error and \<^verbatim>\<open>'close'\<close> is never emitted.
\<close>

theorem terminate_unhandled_counterexample:
  "closes (fst (run [CallTerminate None, StdoutEnd, StderrEnd, Exit (Some 1) None] example_shell)) = 0
   \<and> calls (fst (run [CallTerminate None, StdoutEnd, StderrEnd, Exit (Some 1) None] example_shell)) = 0
   \<and> snd (run [CallTerminate None, StdoutEnd, StderrEnd, Exit (Some 1) None] example_shell) \<noteq> None"
  by (simp add: example_shell_fields terminate_def terminateIfNeeded_waits
      terminateIfNeeded_unhandled closes_def calls_def)

section \<open>Properties of the line framing\<close>

subsection \<open>Splitting and joining\<close>

lemma split_from_prepend:
  "split_from sep cur s = (cur @ hd (split_from sep [] s)) # tl (split_from sep [] s)"
proof (induction s arbitrary: cur)
  case Nil
  then show ?case by simp
next
  case (Cons c cs)
  show ?case
  proof (cases "sep \<noteq> [] \<and> prefix sep (c # cs)")
    case True
    then show ?thesis by simp
  next
    case False
    then have "split_from sep cur (c # cs) = split_from sep (cur @ [c]) cs"
      and "split_from sep [] (c # cs) = split_from sep [c] cs"
      by auto
    with Cons.IH [of "cur @ [c]"] Cons.IH [of "[c]"] show ?thesis
      by simp
  qed
qed

lemma join_Cons: "ps \<noteq> [] \<Longrightarrow> join sep (p # ps) = p @ sep @ join sep ps"
  by (cases ps) simp_all

lemma join_split_from: "join sep (split_from sep cur s) = cur @ s"
proof (induction sep cur s rule: split_from.induct)
  case (1 sep cur)
  then show ?case by simp
next
  case (2 sep cur c cs)
  show ?case
  proof (cases "sep \<noteq> [] \<and> prefix sep (c # cs)")
    case True
    then obtain zs where zs: "c # cs = sep @ zs"
      by (auto simp add: prefix_def)
    with True obtain sep' where sep': "sep = c # sep'" "cs = sep' @ zs"
      by (cases sep) auto
    let ?rest = "split_from sep [] (drop (length sep - 1) cs)"
    have "join sep ?rest = drop (length sep - 1) cs"
      using 2(1) True by simp
    also have "drop (length sep - 1) cs = zs"
      by (simp add: sep')
    finally have r: "join sep ?rest = zs" .
    have "split_from sep cur (c # cs) = cur # ?rest"
      using True by simp
    then have "join sep (split_from sep cur (c # cs)) = cur @ sep @ join sep ?rest"
      by (simp add: join_Cons split_from_not_Nil)
    with r zs show ?thesis
      by simp
  next
    case False
    with 2(2) show ?thesis by auto
  qed
qed

lemma join_split: "join sep (split sep s) = s"
  by (simp add: split_def join_split_from)

lemma split_from_append:
  "split_from [c] cur (a @ b) =
     butlast (split_from [c] cur a) @ split_from [c] (last (split_from [c] cur a)) b"
proof (induction a arbitrary: cur)
  case Nil
  then show ?case by simp
next
  case (Cons x a)
  show ?case
  proof (cases "x = c")
    case True
    with Cons.IH [of "[]"] show ?thesis
      by (simp add: split_from_not_Nil)
  next
    case False
    with Cons.IH [of "cur @ [x]"] show ?thesis
      by simp
  qed
qed

lemma split_from_clean:
  "c \<notin> set cur \<Longrightarrow> \<forall>p \<in> set (split_from [c] cur s). c \<notin> set p"
proof (induction s arbitrary: cur)
  case Nil
  then show ?case by simp
next
  case (Cons x s)
  show ?case
  proof (cases "x = c")
    case True
    with Cons.IH [of "[]"] Cons.prems show ?thesis by simp
  next
    case False
    with Cons.IH [of "cur @ [x]"] Cons.prems show ?thesis by simp
  qed
qed

subsection \<open>Decoding and emitting\<close>

lemma decode_parts_append:
  "decode_parts p (xs @ ys) =
     (case decode_parts p xs of
        (vs, Some e) \<Rightarrow> (vs, Some e)
      | (vs, None) \<Rightarrow> (case decode_parts p ys of (ws, e) \<Rightarrow> (vs @ ws, e)))"
  by (induction xs) (auto split: sum.splits prod.splits option.splits)

lemma decode_parts_total:
  "(\<forall>part \<in> set parts. \<exists>v. call_codec p part = Inr v) \<Longrightarrow>
     decode_parts p parts = (map (\<lambda>part. projr (call_codec p part)) parts, None)"
  by (induction parts) (auto split: sum.splits)

lemma emit_parts_message:
  "emit_parts Message parts self =
     (self\<lparr>effects := effects self @ map Emit_message (fst (decode_parts (parser self) parts))\<rparr>,
      snd (decode_parts (parser self) parts))"
proof (induction parts arbitrary: self)
  case Nil
  then show ?case by simp
next
  case (Cons part parts)
  show ?case
    by (auto simp add: Cons.IH emit_def split: sum.splits prod.splits)
qed

lemma emit_parts_stderr:
  "emit_parts Stderr parts self =
     (self\<lparr>effects := effects self @ map Emit_stderr (fst (decode_parts (stderrParser self) parts))\<rparr>,
      snd (decode_parts (stderrParser self) parts))"
proof (induction parts arbitrary: self)
  case Nil
  then show ?case by simp
next
  case (Cons part parts)
  show ?case
    by (auto simp add: Cons.IH emit_def split: sum.splits prod.splits)
qed

lemma emit_parts_decode:
  "emit_parts ty parts self =
     (self\<lparr>effects := effects self @ map (emitted ty) (fst (decode_parts (codec_of ty self) parts))\<rparr>,
      snd (decode_parts (codec_of ty self) parts))"
proof (cases ty)
  case Message
  have "emitted Message = Emit_message"
    by (rule ext) (simp add: emitted_def)
  with Message show ?thesis
    by (simp add: emit_parts_message codec_of_def)
next
  case Stderr
  have "emitted Stderr = Emit_stderr"
    by (rule ext) (simp add: emitted_def)
  with Stderr show ?thesis
    by (simp add: emit_parts_stderr codec_of_def)
qed

subsection \<open>One chunk\<close>

lemma recieveInternal_frame:
  "recieveInternal data ty self =
     (self\<lparr>remaining := Some (last (split_from (newline (platform (rt self))) (fragment self) data)),
           effects := effects self @ map (emitted ty)
             (fst (decode_parts (codec_of ty self)
                (butlast (split_from (newline (platform (rt self))) (fragment self) data))))\<rparr>,
      snd (decode_parts (codec_of ty self)
             (butlast (split_from (newline (platform (rt self))) (fragment self) data))))"
proof -
  let ?nl = "newline (platform (rt self))"
  let ?P = "split_from ?nl [] data"
  have pre: "split_from ?nl (fragment self) data = (fragment self @ hd ?P) # tl ?P"
    by (rule split_from_prepend)
  have c: "codec_of ty (self\<lparr>remaining := r\<rparr>) = codec_of ty self" for r
    by (simp add: codec_of_def split: emitType.splits)
  show ?thesis
  proof (cases "length ?P = 1")
    case True
    then obtain p where p: "?P = [p]"
      by (cases ?P) auto
    show ?thesis
      unfolding pre by (simp add: recieveInternal_def split_def p)
  next
    case False
    obtain p rest where pr: "?P = p # rest"
      using split_from_not_Nil [of ?nl "[]" data] by (cases ?P) simp_all
    with False obtain q ps where "rest = q # ps"
      by (cases rest) simp_all
    with pr have p: "?P = p # q # ps"
      by simp
    have "recieveInternal data ty self =
        emit_parts ty ((fragment self @ p) # butlast (q # ps)) (self\<lparr>remaining := Some (last (q # ps))\<rparr>)"
      by (simp add: recieveInternal_def split_def p Let_def del: emit_parts.simps)
    also have "\<dots> =
       (self\<lparr>remaining := Some (last (q # ps)),
             effects := effects self @ map (emitted ty)
               (fst (decode_parts (codec_of ty self) ((fragment self @ p) # butlast (q # ps))))\<rparr>,
        snd (decode_parts (codec_of ty self) ((fragment self @ p) # butlast (q # ps))))"
      unfolding emit_parts_decode by (simp add: c)
    finally show ?thesis
      unfolding pre p by simp
  qed
qed

lemma recieveInternal_fragment:
  "fragment (fst (recieveInternal data ty self)) =
     last (split_from (newline (platform (rt self))) (fragment self) data)"
  by (simp add: recieveInternal_frame fragment_def)

lemma recieveInternal_single:
  assumes "length (split (newline (platform (rt self))) data) = 1"
  shows "recieveInternal data ty self = (self\<lparr>remaining := Some (fragment self @ data)\<rparr>, None)"
proof -
  let ?nl = "newline (platform (rt self))"
  from assms obtain p where p: "split ?nl data = [p]"
    by (cases "split ?nl data") auto
  with join_split [of ?nl data] have "p = data"
    by simp
  with p assms show ?thesis
    by (simp add: recieveInternal_def)
qed

lemma recieveInternal_pieces:
  assumes "length (split (newline (platform (rt self))) data) \<noteq> 1"
  shows "recieveInternal data ty self =
       (self\<lparr>remaining := Some (last (split (newline (platform (rt self))) data)),
             effects := effects self @ map (emitted ty)
               (fst (decode_parts (codec_of ty self)
                  ((fragment self @ hd (split (newline (platform (rt self))) data))
                   # tl (butlast (split (newline (platform (rt self))) data)))))\<rparr>,
        snd (decode_parts (codec_of ty self)
               ((fragment self @ hd (split (newline (platform (rt self))) data))
                # tl (butlast (split (newline (platform (rt self))) data)))))
     \<and> join (newline (platform (rt self)))
          (((fragment self @ hd (split (newline (platform (rt self))) data))
            # tl (butlast (split (newline (platform (rt self))) data)))
           @ [last (split (newline (platform (rt self))) data)])
        = fragment self @ data"
proof -
  let ?nl = "newline (platform (rt self))"
  obtain p rest where pr: "split ?nl data = p # rest"
    using split_not_Nil [of ?nl data] by (cases "split ?nl data") simp_all
  with assms obtain q ps where "rest = q # ps"
    by (cases rest) simp_all
  with pr have p: "split ?nl data = p # q # ps"
    by simp
  have f: "split_from ?nl (fragment self) data = (fragment self @ p) # q # ps"
    using split_from_prepend [of ?nl "fragment self" data] p by (simp add: split_def)
  have j: "join ?nl ((fragment self @ p) # q # ps) = fragment self @ data"
    using join_split_from [of ?nl "fragment self" data] by (simp only: f)
  have b: "butlast (q # ps) @ [last (q # ps)] = q # ps"
    by (rule append_butlast_last_id) simp
  have j': "join ?nl ((fragment self @ p) # butlast (q # ps) @ [last (q # ps)]) = fragment self @ data"
    using j by (simp only: b)
  show ?thesis
    using recieveInternal_frame [of data ty self] j'
    by (simp add: f p)
qed

lemma fragment_clean_posix:
  assumes "platform (rt self) = Posix" "CHR 0x0A \<notin> set (fragment self)"
  shows "CHR 0x0A \<notin> set (fragment (fst (recieveInternal data ty self)))"
proof -
  have "last (split_from [CHR 0x0A] (fragment self) data) \<in> set (split_from [CHR 0x0A] (fragment self) data)"
    by (simp add: split_from_not_Nil)
  with split_from_clean [OF assms(2), of data] show ?thesis
    using assms(1) by (simp add: recieveInternal_fragment newline_def)
qed

text \<open>
  The terminator occurs in a text exactly when the split gives more than one piece.
  The last piece of a split that found a terminator holds none. Appending a chunk
  without a terminator to a fragment without one gives a text with a terminator
  exactly when the boundary cuts one.
\<close>

lemma split_from_one: "(length (split_from sep cur s) = 1) = (\<not> occurs sep s)"
proof (induction sep cur s rule: split_from.induct)
  case (1 sep cur)
  then show ?case by simp
next
  case (2 sep cur c cs)
  show ?case
  proof (cases "sep \<noteq> [] \<and> prefix sep (c # cs)")
    case True
    then show ?thesis
      by (simp add: split_from_not_Nil)
  next
    case False
    with 2(2) show ?thesis by auto
  qed
qed

lemma holds_record_occurs: "holds_record sep s = occurs sep s"
  using split_from_one [of sep "[]" s] by (auto simp add: holds_record_def split_def)

lemma split_from_none: "\<not> occurs sep s \<Longrightarrow> split_from sep cur s = [cur @ s]"
proof (induction sep cur s rule: split_from.induct)
  case (1 sep cur)
  then show ?case by simp
next
  case (2 sep cur c cs)
  then show ?case by auto
qed

lemma last_piece_clean: "occurs sep s \<Longrightarrow> \<not> occurs sep (last (split_from sep cur s))"
proof (induction sep cur s rule: split_from.induct)
  case (1 sep cur)
  then show ?case by simp
next
  case (2 sep cur c cs)
  show ?case
  proof (cases "sep \<noteq> [] \<and> prefix sep (c # cs)")
    case True
    let ?r = "drop (length sep - 1) cs"
    have l: "last (split_from sep cur (c # cs)) = last (split_from sep [] ?r)"
      using True by (simp add: split_from_not_Nil)
    show ?thesis
    proof (cases "occurs sep ?r")
      case o: True
      with 2(1) True l show ?thesis by simp
    next
      case n: False
      with split_from_none [OF n, of "[]"] l show ?thesis by simp
    qed
  next
    case False
    with 2(2) 2(3) show ?thesis by auto
  qed
qed

lemma occurs_append:
  assumes "\<not> occurs (newline pf) buffered" "\<not> occurs (newline pf) data"
    and "\<not> cuts_terminator pf buffered data"
  shows "\<not> occurs (newline pf) (buffered @ data)"
  using assms
proof (induction buffered)
  case Nil
  then show ?case by simp
next
  case (Cons c f)
  have s: "suffix [CHR 0x0D] f \<Longrightarrow> suffix [CHR 0x0D] (c # f)"
    by (simp add: suffix_Cons)
  from Cons.prems s have "\<not> cuts_terminator pf f data"
    by (auto simp add: cuts_terminator_def split: platform.splits)
  with Cons have ih: "\<not> occurs (newline pf) (f @ data)"
    by simp
  show ?case
  proof (cases pf)
    case Posix
    with Cons.prems ih show ?thesis
      by (simp add: newline_def)
  next
    case Win32
    show ?thesis
    proof (cases f)
      case Nil
      with Cons.prems ih Win32 show ?thesis
        by (auto simp add: newline_def cuts_terminator_def)
    next
      case (Cons x f')
      with Cons.prems ih Win32 show ?thesis
        by (auto simp add: newline_def)
    qed
  qed
qed

lemma cuts_terminator_iff:
  "cuts_terminator pf buffered data =
     (\<exists>a b. a \<noteq> [] \<and> b \<noteq> [] \<and> newline pf = a @ b \<and> suffix a buffered \<and> prefix b data)"
proof (cases pf)
  case Posix
  then show ?thesis
    by (auto simp add: cuts_terminator_def newline_def Cons_eq_append_conv)
next
  case Win32
  show ?thesis
  proof
    assume "cuts_terminator pf buffered data"
    with Win32 have "suffix [CHR 0x0D] buffered" "prefix [CHR 0x0A] data"
      by (simp_all add: cuts_terminator_def)
    then show "\<exists>a b. a \<noteq> [] \<and> b \<noteq> [] \<and> newline pf = a @ b \<and> suffix a buffered \<and> prefix b data"
      using Win32 by (intro exI [of _ "[CHR 0x0D]"] exI [of _ "[CHR 0x0A]"]) (simp add: newline_def)
  next
    assume "\<exists>a b. a \<noteq> [] \<and> b \<noteq> [] \<and> newline pf = a @ b \<and> suffix a buffered \<and> prefix b data"
    then obtain a b where ab: "a \<noteq> []" "b \<noteq> []" "newline pf = a @ b" "suffix a buffered" "prefix b data"
      by blast
    from ab(1-3) Win32 have "a = [CHR 0x0D]" "b = [CHR 0x0A]"
      by (auto simp add: newline_def Cons_eq_append_conv)
    with ab Win32 show "cuts_terminator pf buffered data"
      by (simp add: cuts_terminator_def)
  qed
qed

lemma fragment_after_terminator:
  assumes "length (split (newline (platform (rt self))) data) \<noteq> 1"
  shows "\<not> holds_record (newline (platform (rt self))) (fragment (fst (recieveInternal data ty self)))"
proof -
  from assms have "occurs (newline (platform (rt self))) data"
    using split_from_one [of "newline (platform (rt self))" "[]" data] by (simp add: split_def)
  from last_piece_clean [OF this, of "fragment self"] show ?thesis
    by (simp add: holds_record_occurs recieveInternal_fragment)
qed

lemma fragment_stays_clean:
  assumes "\<not> holds_record (newline (platform (rt self))) (fragment self)"
    and "\<not> cuts_terminator (platform (rt self)) (fragment self) data"
  shows "\<not> holds_record (newline (platform (rt self))) (fragment (fst (recieveInternal data ty self)))"
proof (cases "occurs (newline (platform (rt self))) data")
  case True
  then have "length (split (newline (platform (rt self))) data) \<noteq> 1"
    using split_from_one [of "newline (platform (rt self))" "[]" data] by (simp add: split_def)
  then show ?thesis
    by (rule fragment_after_terminator)
next
  case False
  from assms(1) have "\<not> occurs (newline (platform (rt self))) (fragment self)"
    by (simp add: holds_record_occurs)
  from occurs_append [OF this False assms(2)] show ?thesis
    by (simp add: holds_record_occurs recieveInternal_fragment split_from_none [OF False])
qed


lemma cut_occurs:
  assumes "cuts_terminator pf buffered data"
  shows "occurs (newline pf) (buffered @ data)"
proof -
  from assms have w: "pf = Win32" "suffix [CHR 0x0D] buffered" "prefix [CHR 0x0A] data"
    by (simp_all add: cuts_terminator_def split: platform.splits)
  then obtain f d where fd: "buffered = f @ [CHR 0x0D]" "data = CHR 0x0A # d"
    by (auto simp add: suffix_def prefix_def)
  have "occurs [CHR 0x0D, CHR 0x0A] (f @ CHR 0x0D # CHR 0x0A # d)"
    by (induction f) simp_all
  with w(1) fd show ?thesis
    by (simp add: newline_def)
qed

lemma fragment_holds_record:
  assumes "\<not> holds_record (newline (platform (rt self))) (fragment self)"
  shows "holds_record (newline (platform (rt self))) (fragment (fst (recieveInternal data ty self)))
    = (cuts_terminator (platform (rt self)) (fragment self) data
       \<and> length (split (newline (platform (rt self))) data) = 1)"
proof (cases "length (split (newline (platform (rt self))) data) = 1")
  case False
  with fragment_after_terminator [of self data ty] show ?thesis
    by simp
next
  case True
  then have n: "\<not> occurs (newline (platform (rt self))) data"
    using split_from_one [of "newline (platform (rt self))" "[]" data] by (simp add: split_def)
  show ?thesis
  proof (cases "cuts_terminator (platform (rt self)) (fragment self) data")
    case c: True
    from cut_occurs [OF c] True c show ?thesis
      by (simp add: holds_record_occurs recieveInternal_fragment split_from_none [OF n])
  next
    case c: False
    with fragment_stays_clean [OF assms c, of ty] show ?thesis
      by simp
  qed
qed

lemma example_codecs:
  "parser example_shell = Some asText" "stderrParser example_shell = Some asText"
  "rt example_shell = example_runtime Posix" "remaining example_shell = None"
  by (simp_all add: example_shell_def new_PythonShell_def Let_def resolve_def parse_table_def
      no_options_def)

lemma platform_example: "platform (example_runtime pf) = pf"
  by (simp add: example_runtime_def)

text \<open>
  C6. A chunk is split at the line terminators. When this gives one piece, the piece
  is appended to the buffered fragment and nothing is emitted. Otherwise the fragment
  is prepended to the first piece, the last piece is the new fragment, and the pieces
  but the last are decoded and emitted in order, up to the first on which the codec
  throws: all of them when it throws on none. The fragment and the chunk together are
  the emitted pieces and the new fragment with a terminator between them, so no
  record is emitted before its terminator was received. Where the terminator is the
  one character line feed, a buffer without a line feed stays without one. On every
  platform the buffer holds no complete record after a chunk that contains a
  terminator; and a buffer that holds no complete record holds one after the chunk
  exactly when the chunk contains no terminator and the chunk boundary cuts one,
  which takes the two characters of Windows, the carriage return at the end of the
  fragment and the line feed at the start of the chunk.
\<close>

theorem recieveInternal_spec:
  "(length (split (newline (platform (rt self))) data) = 1 \<longrightarrow>
      recieveInternal data ty self = (self\<lparr>remaining := Some (fragment self @ data)\<rparr>, None))
   \<and> (length (split (newline (platform (rt self))) data) \<noteq> 1 \<longrightarrow>
      recieveInternal data ty self =
        (self\<lparr>remaining := Some (last (split (newline (platform (rt self))) data)),
              effects := effects self @ map (emitted ty)
                (fst (decode_parts (codec_of ty self)
                   ((fragment self @ hd (split (newline (platform (rt self))) data))
                    # tl (butlast (split (newline (platform (rt self))) data)))))\<rparr>,
         snd (decode_parts (codec_of ty self)
                ((fragment self @ hd (split (newline (platform (rt self))) data))
                 # tl (butlast (split (newline (platform (rt self))) data)))))
      \<and> join (newline (platform (rt self)))
           (((fragment self @ hd (split (newline (platform (rt self))) data))
             # tl (butlast (split (newline (platform (rt self))) data)))
            @ [last (split (newline (platform (rt self))) data)])
         = fragment self @ data)
   \<and> ((\<forall>part \<in> set parts. \<exists>v. call_codec p part = Inr v) \<longrightarrow>
        decode_parts p parts = (map (\<lambda>part. projr (call_codec p part)) parts, None))
   \<and> (platform (rt self) = Posix \<and> CHR 0x0A \<notin> set (fragment self) \<longrightarrow>
        CHR 0x0A \<notin> set (fragment (fst (recieveInternal data ty self))))
   \<and> (length (split (newline (platform (rt self))) data) \<noteq> 1 \<longrightarrow>
        \<not> holds_record (newline (platform (rt self))) (fragment (fst (recieveInternal data ty self))))
   \<and> (\<not> holds_record (newline (platform (rt self))) (fragment self) \<longrightarrow>
        holds_record (newline (platform (rt self))) (fragment (fst (recieveInternal data ty self)))
        = (cuts_terminator (platform (rt self)) (fragment self) data
           \<and> length (split (newline (platform (rt self))) data) = 1))"
  using recieveInternal_single [of self data ty] recieveInternal_pieces [of self data ty]
    decode_parts_total [of parts p] fragment_clean_posix [of self data ty]
    fragment_after_terminator [of self data ty] fragment_holds_record [of self data ty]
  by blast

text \<open>
  The session that has buffered \<^verbatim>\<open>ab\<close> receives a chunk without a terminator, and
  a chunk with two. The session on Windows that has buffered \<^verbatim>\<open>a\<close> and a carriage
  return receives a chunk with a terminator, a chunk without one that starts with
  \<^verbatim>\<open>b\<close>, and a chunk without one that starts with a line feed.
\<close>

theorem recieveInternal_spec_witness:
  "recieveInternal ''xyz'' Message buffering_shell = (buffering_shell\<lparr>remaining := Some ''abxyz''\<rparr>, None)
   \<and> recieveInternal ''c\<newline>d\<newline>e'' Message buffering_shell =
       (buffering_shell\<lparr>remaining := Some ''e'',
          effects := [Emit_message (JSStr ''abc''), Emit_message (JSStr ''d'')]\<rparr>, None)
   \<and> join ''\<newline>'' [''abc'', ''d'', ''e''] = ''abc\<newline>d\<newline>e''
   \<and> decode_parts (Some asText) [''abc'', ''d''] = ([JSStr ''abc'', JSStr ''d''], None)
   \<and> CHR 0x0A \<notin> set (fragment (fst (recieveInternal ''c\<newline>d\<newline>e'' Message buffering_shell)))
   \<and> \<not> holds_record (newline Win32)
         (fragment (fst (recieveInternal [CHR ''x'', CHR 0x0D, CHR 0x0A, CHR ''y''] Message windows_buffering_shell)))
   \<and> \<not> holds_record (newline Win32)
         (fragment (fst (recieveInternal [CHR ''b'', CHR 0x0A] Message windows_buffering_shell)))
   \<and> holds_record (newline Win32)
         (fragment (fst (recieveInternal [CHR 0x0A, CHR ''b''] Message windows_buffering_shell)))"
proof -
  have f: "platform (rt buffering_shell) = Posix" "fragment buffering_shell = ''ab''"
    "effects buffering_shell = []" "codec_of Message buffering_shell = Some asText"
    by (simp_all add: buffering_shell_def example_codecs platform_example fragment_def
        example_shell_fields codec_of_def)
  have s: "split [CHR 0x0A] ''xyz'' = [''xyz'']" "split [CHR 0x0A] ''c\<newline>d\<newline>e'' = [''c'', ''d'', ''e'']"
    by (simp_all add: split_def)
  have g: "fragment (buffering_shell\<lparr>remaining := Some r, effects := es\<rparr>) = r" for r es
    by (simp add: fragment_def)
  have w: "platform (rt windows_buffering_shell) = Win32"
    "fragment windows_buffering_shell = [CHR ''a'', CHR 0x0D]"
    by (simp_all add: windows_buffering_shell_def windows_shell_def new_PythonShell_def Let_def
        platform_example fragment_def)
  have t: "split [CHR 0x0D, CHR 0x0A] [CHR ''x'', CHR 0x0D, CHR 0x0A, CHR ''y''] = [''x'', ''y'']"
    "split [CHR 0x0D, CHR 0x0A] [CHR ''b'', CHR 0x0A] = [[CHR ''b'', CHR 0x0A]]"
    "split [CHR 0x0D, CHR 0x0A] [CHR 0x0A, CHR ''b''] = [[CHR 0x0A, CHR ''b'']]"
    "split [CHR 0x0D, CHR 0x0A] [CHR ''a'', CHR 0x0D] = [[CHR ''a'', CHR 0x0D]]"
    by (simp_all add: split_def)
  have c: "\<not> holds_record (newline Win32) [CHR ''a'', CHR 0x0D]"
    "\<not> cuts_terminator Win32 [CHR ''a'', CHR 0x0D] [CHR ''b'', CHR 0x0A]"
    "cuts_terminator Win32 [CHR ''a'', CHR 0x0D] [CHR 0x0A, CHR ''b'']"
    by (simp_all add: holds_record_def cuts_terminator_def newline_def t suffix_Cons)
  have p: "recieveInternal ''xyz'' Message buffering_shell = (buffering_shell\<lparr>remaining := Some ''abxyz''\<rparr>, None)
   \<and> recieveInternal ''c\<newline>d\<newline>e'' Message buffering_shell =
       (buffering_shell\<lparr>remaining := Some ''e'',
          effects := [Emit_message (JSStr ''abc''), Emit_message (JSStr ''d'')]\<rparr>, None)
   \<and> join ''\<newline>'' [''abc'', ''d'', ''e''] = ''abc\<newline>d\<newline>e''
   \<and> decode_parts (Some asText) [''abc'', ''d''] = ([JSStr ''abc'', JSStr ''d''], None)
   \<and> CHR 0x0A \<notin> set (fragment (fst (recieveInternal ''c\<newline>d\<newline>e'' Message buffering_shell)))"
    using recieveInternal_spec [of buffering_shell "''xyz''" Message "[]" None]
      recieveInternal_spec [of buffering_shell "''c\<newline>d\<newline>e''" Message "[''abc'', ''d'']" "Some asText"]
    by (simp add: f g s newline_def emitted_def call_codec_def asText_def)
  have q: "\<not> holds_record (newline Win32)
         (fragment (fst (recieveInternal [CHR ''x'', CHR 0x0D, CHR 0x0A, CHR ''y''] Message windows_buffering_shell)))"
    using recieveInternal_spec [of windows_buffering_shell "[CHR ''x'', CHR 0x0D, CHR 0x0A, CHR ''y'']" Message "[]" None,
        THEN conjunct2, THEN conjunct2, THEN conjunct2, THEN conjunct2, THEN conjunct1]
    by (simp add: w) (simp add: newline_def t)
  have r: "\<not> holds_record (newline Win32)
         (fragment (fst (recieveInternal [CHR ''b'', CHR 0x0A] Message windows_buffering_shell)))
     \<and> holds_record (newline Win32)
         (fragment (fst (recieveInternal [CHR 0x0A, CHR ''b''] Message windows_buffering_shell)))"
    using recieveInternal_spec [of windows_buffering_shell "[CHR ''b'', CHR 0x0A]" Message "[]" None,
        THEN conjunct2, THEN conjunct2, THEN conjunct2, THEN conjunct2, THEN conjunct2]
      recieveInternal_spec [of windows_buffering_shell "[CHR 0x0A, CHR ''b'']" Message "[]" None,
        THEN conjunct2, THEN conjunct2, THEN conjunct2, THEN conjunct2, THEN conjunct2]
      c
    by (simp add: w) (simp add: newline_def t)
  from p q r show ?thesis
    by blast
qed

text \<open>
  The parser that accepts only \<^verbatim>\<open>ok\<close> throws on the first of the two records of
  a chunk: the second is never emitted. On Windows a chunk that ends in a carriage
  return and a chunk that starts with a line feed leave a buffer that holds the
  complete record \<^verbatim>\<open>a\<close> and its terminator.
\<close>

theorem recieveInternal_counterexample:
  "butlast (split (newline Posix) ''bad\<newline>ok\<newline>'') = [''bad'', ''ok'']
   \<and> effects (fst (recieveInternal ''bad\<newline>ok\<newline>'' Message strict_shell)) = []
   \<and> snd (recieveInternal ''bad\<newline>ok\<newline>'' Message strict_shell) = Some (CodecError ''SyntaxError'')
   \<and> fragment (fst (receive_all Message [[CHR ''a'', CHR 0x0D], [CHR 0x0A, CHR ''b'']] windows_shell))
       = [CHR ''a'', CHR 0x0D, CHR 0x0A, CHR ''b'']
   \<and> split (newline Win32) [CHR ''a'', CHR 0x0D, CHR 0x0A, CHR ''b''] = [''a'', ''b'']"
proof -
  have s: "rt strict_shell = example_runtime Posix" "parser strict_shell = Some strict_parser"
    "remaining strict_shell = None" "effects strict_shell = []"
    by (simp_all add: strict_shell_def new_PythonShell_def Let_def resolve_def no_options_def)
  have w: "rt windows_shell = example_runtime Win32" "remaining windows_shell = None"
    by (simp_all add: windows_shell_def new_PythonShell_def Let_def)
  have a: "butlast (split (newline Posix) ''bad\<newline>ok\<newline>'') = [''bad'', ''ok'']"
    by (simp add: split_def newline_def)
  have b: "recieveInternal ''bad\<newline>ok\<newline>'' Message strict_shell =
      (strict_shell\<lparr>remaining := Some []\<rparr>, Some (CodecError ''SyntaxError''))"
    by (simp add: recieveInternal_def s platform_example newline_def split_def fragment_def
        call_codec_def strict_parser_def)
  have c: "recieveInternal [CHR ''a'', CHR 0x0D] Message windows_shell =
      (windows_shell\<lparr>remaining := Some [CHR ''a'', CHR 0x0D]\<rparr>, None)"
    by (simp add: recieveInternal_def w platform_example newline_def split_def fragment_def)
  have d: "recieveInternal [CHR 0x0A, CHR ''b''] Message (windows_shell\<lparr>remaining := Some [CHR ''a'', CHR 0x0D]\<rparr>) =
      (windows_shell\<lparr>remaining := Some [CHR ''a'', CHR 0x0D, CHR 0x0A, CHR ''b'']\<rparr>, None)"
    by (simp add: recieveInternal_def w platform_example newline_def split_def fragment_def)
  have e: "split (newline Win32) [CHR ''a'', CHR 0x0D, CHR 0x0A, CHR ''b''] = [''a'', ''b'']"
    by (simp add: split_def newline_def)
  show ?thesis
    by (simp add: a b c d e s fragment_def)
qed

subsection \<open>Many chunks\<close>

lemma receive_all_frame:
  assumes "platform (rt self) = Posix"
  shows "effects (fst (receive_all ty chunks self)) =
       effects self @ map (emitted ty)
         (fst (decode_parts (codec_of ty self)
            (butlast (split_from [CHR 0x0A] (fragment self) (concat chunks)))))
     \<and> snd (receive_all ty chunks self) =
       snd (decode_parts (codec_of ty self)
            (butlast (split_from [CHR 0x0A] (fragment self) (concat chunks))))"
  using assms
proof (induction chunks arbitrary: self)
  case Nil
  then show ?case by simp
next
  case (Cons data chunks)
  let ?ps = "split_from [CHR 0x0A] (fragment self) data"
  let ?D = "decode_parts (codec_of ty self) (butlast ?ps)"
  define s1 where "s1 = fst (recieveInternal data ty self)"
  have nl: "newline (platform (rt self)) = [CHR 0x0A]"
    using Cons.prems by (simp add: newline_def)
  have r: "recieveInternal data ty self = (s1, snd ?D)"
    unfolding s1_def using recieveInternal_frame [of data ty self] by (simp add: nl)
  have s1: "platform (rt s1) = Posix" "codec_of ty s1 = codec_of ty self"
    "fragment s1 = last ?ps" "effects s1 = effects self @ map (emitted ty) (fst ?D)"
    unfolding s1_def using Cons.prems
    by (simp_all add: recieveInternal_frame newline_def codec_of_def fragment_def split: emitType.splits)
  have whole: "butlast (split_from [CHR 0x0A] (fragment self) (concat (data # chunks))) =
      butlast ?ps @ butlast (split_from [CHR 0x0A] (last ?ps) (concat chunks))"
    by (simp add: split_from_append butlast_append split_from_not_Nil)
  obtain vs e where D: "?D = (vs, e)"
    by (cases ?D)
  show ?case
  proof (cases e)
    case None
    obtain ws f where W: "decode_parts (codec_of ty self)
        (butlast (split_from [CHR 0x0A] (last ?ps) (concat chunks))) = (ws, f)"
      by (cases "decode_parts (codec_of ty self)
        (butlast (split_from [CHR 0x0A] (last ?ps) (concat chunks)))")
    have step: "receive_all ty (data # chunks) self = receive_all ty chunks s1"
      using r D None by simp
    have dec: "decode_parts (codec_of ty self)
        (butlast (split_from [CHR 0x0A] (fragment self) (concat (data # chunks)))) = (vs @ ws, f)"
      unfolding whole by (simp add: decode_parts_append D None W)
    from Cons.IH [OF s1(1)] show ?thesis
      unfolding step dec by (simp add: s1 D W)
  next
    case (Some x)
    have step: "receive_all ty (data # chunks) self = (s1, Some x)"
      using r D Some by simp
    have dec: "decode_parts (codec_of ty self)
        (butlast (split_from [CHR 0x0A] (fragment self) (concat (data # chunks)))) = (vs, Some x)"
      unfolding whole by (simp add: decode_parts_append D Some)
    show ?thesis
      unfolding step dec by (simp add: s1 D)
  qed
qed

text \<open>
  Where the line terminator is the one character line feed, the records emitted for
  a list of chunks delivered to one stream's receive path, and the exception that
  ends the delivery if there is one, are those of their concatenation delivered as
  one chunk.
\<close>

theorem chunk_invariance_posix:
  assumes "platform (rt self) = Posix"
  shows "effects (fst (receive_all ty chunks self)) = effects (fst (recieveInternal (concat chunks) ty self))
     \<and> snd (receive_all ty chunks self) = snd (recieveInternal (concat chunks) ty self)"
  using receive_all_frame [OF assms, of ty chunks] assms
  by (simp add: recieveInternal_frame newline_def)

text \<open>Two lines that arrive as three chunks and as one.\<close>

theorem chunk_invariance_posix_witness:
  "effects (fst (receive_all Message [''he'', ''llo\<newline>wor'', ''ld\<newline>''] example_shell))
     = [Emit_message (JSStr ''hello''), Emit_message (JSStr ''world'')]
   \<and> effects (fst (recieveInternal ''hello\<newline>world\<newline>'' Message example_shell))
     = [Emit_message (JSStr ''hello''), Emit_message (JSStr ''world'')]"
proof -
  have p: "platform (rt example_shell) = Posix"
    by (simp add: example_codecs platform_example)
  have e: "recieveInternal ''hello\<newline>world\<newline>'' Message example_shell =
      (example_shell\<lparr>remaining := Some [],
         effects := [Emit_message (JSStr ''hello''), Emit_message (JSStr ''world'')]\<rparr>, None)"
    by (simp add: recieveInternal_def example_codecs platform_example newline_def split_def
        fragment_def call_codec_def asText_def emit_def example_shell_fields)
  show ?thesis
    using chunk_invariance_posix [OF p, of Message "[''he'', ''llo\<newline>wor'', ''ld\<newline>'']"]
    by (simp add: e del: receive_all.simps)
qed

text \<open>
  C2. On Windows the line terminator is carriage return, line feed. The text
  \<^verbatim>\<open>a CR LF b CR LF\<close> gives the records \<^verbatim>\<open>a\<close> and \<^verbatim>\<open>b\<close> when stdout delivers
  it as one chunk, and the single record \<^verbatim>\<open>a CR LF b\<close> when the first chunk ends
  between the carriage return and the line feed: the emitted records depend on how
  the text is cut into chunks.
\<close>

theorem chunk_invariance_win32_example:
  "effects (fst (run [StdoutData [CHR ''a'', CHR 0x0D], StdoutData [CHR 0x0A, CHR ''b'', CHR 0x0D, CHR 0x0A]]
       windows_shell))
     = [Emit_message (JSStr [CHR ''a'', CHR 0x0D, CHR 0x0A, CHR ''b''])]
   \<and> effects (fst (run [StdoutData [CHR ''a'', CHR 0x0D, CHR 0x0A, CHR ''b'', CHR 0x0D, CHR 0x0A]]
       windows_shell))
     = [Emit_message (JSStr ''a''), Emit_message (JSStr ''b'')]"
proof -
  have w: "rt windows_shell = example_runtime Win32" "remaining windows_shell = None"
    "parser windows_shell = Some asText" "effects windows_shell = []"
    by (simp_all add: windows_shell_def new_PythonShell_def Let_def resolve_def parse_table_def
        no_options_def)
  have c: "recieveInternal [CHR ''a'', CHR 0x0D] Message windows_shell =
      (windows_shell\<lparr>remaining := Some [CHR ''a'', CHR 0x0D]\<rparr>, None)"
    by (simp add: recieveInternal_def w platform_example newline_def split_def fragment_def)
  have d: "recieveInternal [CHR 0x0A, CHR ''b'', CHR 0x0D, CHR 0x0A] Message
        (windows_shell\<lparr>remaining := Some [CHR ''a'', CHR 0x0D]\<rparr>) =
      (windows_shell\<lparr>remaining := Some [],
         effects := [Emit_message (JSStr [CHR ''a'', CHR 0x0D, CHR 0x0A, CHR ''b''])]\<rparr>, None)"
    by (simp add: recieveInternal_def w platform_example newline_def split_def fragment_def
        call_codec_def asText_def emit_def)
  have e: "recieveInternal [CHR ''a'', CHR 0x0D, CHR 0x0A, CHR ''b'', CHR 0x0D, CHR 0x0A] Message windows_shell =
      (windows_shell\<lparr>remaining := Some [],
         effects := [Emit_message (JSStr ''a''), Emit_message (JSStr ''b'')]\<rparr>, None)"
    by (simp add: recieveInternal_def w platform_example newline_def split_def fragment_def
        call_codec_def asText_def emit_def)
  show ?thesis
    by (simp add: receive_def w c d e)
qed

text \<open>
  C7. Both streams buffer in the one field \<^verbatim>\<open>_remaining\<close>. After stdout delivered
  \<^verbatim>\<open>abc\<close> without a terminator, the first record of the next stderr chunk is
  emitted as \<^verbatim>\<open>abcx\<close>, the stdout fragment in front of the stderr text, where
  the stderr chunk alone gives \<^verbatim>\<open>x\<close>.
\<close>

theorem shared_fragment_example:
  "effects (fst (run [StdoutData ''abc'', StderrData ''x\<newline>y''] example_shell))
     = [Emit_stderr (JSStr ''abcx'')]
   \<and> remaining (fst (run [StdoutData ''abc'', StderrData ''x\<newline>y''] example_shell)) = Some ''y''
   \<and> effects (fst (run [StderrData ''x\<newline>y''] example_shell)) = [Emit_stderr (JSStr ''x'')]"
proof -
  have a: "recieveInternal ''abc'' Message example_shell = (example_shell\<lparr>remaining := Some ''abc''\<rparr>, None)"
    by (simp add: recieveInternal_def example_codecs platform_example newline_def split_def
        fragment_def)
  have b: "recieveInternal ''x\<newline>y'' Stderr (example_shell\<lparr>remaining := Some ''abc'', errorData := ''x\<newline>y''\<rparr>) =
      (example_shell\<lparr>remaining := Some ''y'', errorData := ''x\<newline>y'',
         effects := [Emit_stderr (JSStr ''abcx'')]\<rparr>, None)"
    by (simp add: recieveInternal_def example_codecs platform_example newline_def split_def
        fragment_def call_codec_def asText_def emit_def example_shell_fields)
  have c: "recieveInternal ''x\<newline>y'' Stderr (example_shell\<lparr>errorData := ''x\<newline>y''\<rparr>) =
      (example_shell\<lparr>remaining := Some ''y'', errorData := ''x\<newline>y'',
         effects := [Emit_stderr (JSStr ''x'')]\<rparr>, None)"
    by (simp add: recieveInternal_def example_codecs platform_example newline_def split_def
        fragment_def call_codec_def asText_def emit_def example_shell_fields)
  show ?thesis
    by (simp add: receive_def receiveStderr_def example_codecs example_shell_fields a b c)
qed

subsection \<open>Binary mode\<close>

text \<open>
  The handler for stderr data is installed in every mode. A session made in binary
  mode without a parser for stderr has none, so a stderr chunk that holds a line
  terminator makes the handler throw a TypeError: the text is kept for the error
  parser, the buffer takes the last piece, and nothing is emitted.
\<close>

theorem binary_stderr_throws:
  assumes "opt_mode opts = Some Binary" "opt_stderrParser opts = None"
    and "length (split (newline (platform r)) data) \<noteq> 1"
  shows "step (StderrData data) (new_PythonShell r path opts) =
     ((new_PythonShell r path opts)\<lparr>errorData := data,
         remaining := Some (last (split (newline (platform r)) data))\<rparr>,
      Some (TypeError ''not a function''))"
proof -
  let ?s = "(new_PythonShell r path opts)\<lparr>errorData := data\<rparr>"
  have f: "rt ?s = r" "codec_of Stderr ?s = None" "effects ?s = []" "errorData (new_PythonShell r path opts) = []"
    using assms(1,2)
    by (simp_all add: new_PythonShell_def Let_def codec_of_def resolve_def parse_table_def)
  have "recieveInternal data Stderr ?s =
      (?s\<lparr>remaining := Some (last (split (newline (platform r)) data))\<rparr>, Some (TypeError ''not a function''))"
    using recieveInternal_pieces [of ?s data Stderr, THEN conjunct1] assms(3)
    by (simp add: f call_codec_def) (simp add: new_PythonShell_def Let_def)
  then show ?thesis
    by (simp add: receiveStderr_def f)
qed

text \<open>A warning with its line terminator on the stderr of a session in binary mode.\<close>

theorem binary_stderr_throws_witness:
  "step (StderrData ''warning\<newline>'') binary_shell =
     (binary_shell\<lparr>errorData := ''warning\<newline>'', remaining := Some []\<rparr>,
      Some (TypeError ''not a function''))"
proof -
  have s: "split [CHR 0x0A] ''warning\<newline>'' = [''warning'', []]"
    by (simp add: split_def)
  show ?thesis
    using binary_stderr_throws [of "no_options\<lparr>opt_mode := Some Binary\<rparr>" "example_runtime Posix"
        "''warning\<newline>''" "''script.py''"]
    by (simp add: binary_shell_def no_options_def platform_example newline_def s del: step.simps)
qed

section \<open>At most one terminal transition in any run\<close>

lemma recieveInternal_counts:
  "closes (fst (recieveInternal data ty self)) = closes self
   \<and> calls (fst (recieveInternal data ty self)) = calls self
   \<and> stdoutHasEnded (fst (recieveInternal data ty self)) = stdoutHasEnded self
   \<and> stderrHasEnded (fst (recieveInternal data ty self)) = stderrHasEnded self
   \<and> exited (fst (recieveInternal data ty self)) = exited self"
proof -
  have e: "count_list (map (emitted ty) vs) Emit_close = 0" for vs
    by (induction vs) (simp_all add: emitted_def split: emitType.splits)
  have c: "filter is_callback (map (emitted ty) vs) = []" for vs
    by (induction vs) (simp_all add: emitted_def split: emitType.splits)
  show ?thesis
    by (simp add: recieveInternal_frame closes_def calls_def exited_def e c)
qed

lemma step_other_counts:
  assumes "\<not> is_completion i"
  shows "closes (fst (step i self)) = closes self
   \<and> calls (fst (step i self)) = calls self
   \<and> stdoutHasEnded (fst (step i self)) = stdoutHasEnded self
   \<and> stderrHasEnded (fst (step i self)) = stderrHasEnded self
   \<and> exited (fst (step i self)) = exited self"
proof (cases i)
  case (StdoutData data)
  then show ?thesis
    using recieveInternal_counts [of data Message self] by (simp add: receive_def)
next
  case (StderrData data)
  have "closes (self\<lparr>errorData := errorData self @ data\<rparr>) = closes self"
    "calls (self\<lparr>errorData := errorData self @ data\<rparr>) = calls self"
    "exited (self\<lparr>errorData := errorData self @ data\<rparr>) = exited self"
    by (simp_all add: closes_def calls_def exited_def)
  with StderrData show ?thesis
    using recieveInternal_counts [of data Stderr "self\<lparr>errorData := errorData self @ data\<rparr>"]
    by (simp add: receiveStderr_def)
qed (use assms in \<open>simp_all add: send_def end_call_def terminate_def closes_def calls_def exited_def Let_def\<close>)

lemma terminateIfNeeded_counts:
  "closes (fst (terminateIfNeeded self)) \<le> closes self
       + (if stdoutHasEnded self \<and> stderrHasEnded self \<and> exited self then 1 else 0)
   \<and> calls (fst (terminateIfNeeded self)) \<le> calls self
       + (if stdoutHasEnded self \<and> stderrHasEnded self \<and> exited self then 1 else 0)
   \<and> stdoutHasEnded (fst (terminateIfNeeded self)) = stdoutHasEnded self
   \<and> stderrHasEnded (fst (terminateIfNeeded self)) = stderrHasEnded self
   \<and> exited (fst (terminateIfNeeded self)) = exited self"
proof -
  consider
    (waits) "\<not> stderrHasEnded self \<or> \<not> stdoutHasEnded self \<or> (exitCode self = None \<and> exitSignal self = None)"
  | (clean) "stderrHasEnded self" "stdoutHasEnded self"
      "exitCode self = None \<and> exitSignal self \<noteq> None \<or> exitCode self = Some 0"
  | (failed) c where "stderrHasEnded self" "stdoutHasEnded self" "exitCode self = Some c" "c \<noteq> 0"
      "errorListeners self \<noteq> 0 \<or> endCallback self \<noteq> None"
  | (unhandled) c where "stderrHasEnded self" "stdoutHasEnded self" "exitCode self = Some c" "c \<noteq> 0"
      "errorListeners self = 0" "endCallback self = None"
    by (cases "exitCode self") fastforce+
  then show ?thesis
  proof cases
    case waits
    then show ?thesis
      by (simp add: terminateIfNeeded_waits)
  next
    case clean
    from terminateIfNeeded_clean [OF clean] clean show ?thesis
      by (auto simp add: closes_def calls_def exited_def split: option.splits)
  next
    case failed
    from terminateIfNeeded_failed [OF failed] failed show ?thesis
      by (auto simp add: closes_def calls_def exited_def split: option.splits)
  next
    case unhandled
    from terminateIfNeeded_unhandled [OF unhandled] unhandled show ?thesis
      by (simp add: closes_def calls_def exited_def)
  qed
qed

lemma fresh_signals_other:
  "\<not> is_completion i \<Longrightarrow> fresh_signals out err ex (i # ins) = fresh_signals out err ex ins"
  by (cases i) simp_all

lemma signal_step_counts:
  assumes "step i self = terminateIfNeeded t"
    and "closes t = closes self" "calls t = calls self"
    and "\<not> all_facts self"
  shows "closes (fst (step i self)) \<le> closes self + (if all_facts t then 1 else 0)
     \<and> calls (fst (step i self)) \<le> calls self + (if all_facts t then 1 else 0)
     \<and> stdoutHasEnded (fst (step i self)) = stdoutHasEnded t
     \<and> stderrHasEnded (fst (step i self)) = stderrHasEnded t
     \<and> exited (fst (step i self)) = exited t
     \<and> all_facts (fst (step i self)) = all_facts t"
  using terminateIfNeeded_counts [of t] assms by (simp add: all_facts_def)

text \<open>
  In every run in which each completion signal arrives at most once, with chunks of
  data, calls of \<^verbatim>\<open>send\<close>, \<^verbatim>\<open>end\<close> and \<^verbatim>\<open>terminate\<close> and new listeners in
  between in any way, \<^verbatim>\<open>'close'\<close> is emitted at most once and the completion
  callback is called at most once, and neither happens again once all three facts
  hold.
\<close>

theorem close_at_most_once:
  "fresh_signals (stdoutHasEnded self) (stderrHasEnded self) (exited self) ins \<Longrightarrow>
     closes (fst (run ins self)) \<le> closes self + (if all_facts self then 0 else 1)
   \<and> calls (fst (run ins self)) \<le> calls self + (if all_facts self then 0 else 1)"
proof (induction ins arbitrary: self)
  case Nil
  then show ?case by simp
next
  case (Cons i ins)
  obtain s1 e where s1: "step i self = (s1, e)"
    by (cases "step i self")
  have r: "run (i # ins) self = (if e = None then run ins s1 else (s1, e))"
    using s1 by (cases e) simp_all
  show ?case
  proof (cases "is_completion i")
    case False
    from step_other_counts [OF False, of self] s1
    have k: "closes s1 = closes self" "calls s1 = calls self" "stdoutHasEnded s1 = stdoutHasEnded self"
      "stderrHasEnded s1 = stderrHasEnded self" "exited s1 = exited self"
      by simp_all
    then have a: "all_facts s1 = all_facts self"
      by (simp add: all_facts_def)
    from Cons.prems False have "fresh_signals (stdoutHasEnded s1) (stderrHasEnded s1) (exited s1) ins"
      by (simp add: fresh_signals_other k)
    from Cons.IH [OF this] show ?thesis
      by (cases e) (simp_all add: r k a del: run.simps)
  next
    case True
    then obtain t where t: "step i self = terminateIfNeeded t" "closes t = closes self"
      "calls t = calls self" "\<not> all_facts self"
      "fresh_signals (stdoutHasEnded t) (stderrHasEnded t) (exited t) ins"
    proof (cases i)
      case StdoutEnd
      with Cons.prems show ?thesis
        by (intro that [of "self\<lparr>stdoutHasEnded := True\<rparr>"])
          (simp_all add: closes_def calls_def exited_def all_facts_def)
    next
      case StderrEnd
      with Cons.prems show ?thesis
        by (intro that [of "self\<lparr>stderrHasEnded := True\<rparr>"])
          (simp_all add: closes_def calls_def exited_def all_facts_def)
    next
      case (Exit c g)
      with Cons.prems show ?thesis
        by (intro that [of "self\<lparr>exitCode := c, exitSignal := g\<rparr>"])
          (auto simp add: closes_def calls_def exited_def all_facts_def)
    qed simp_all
    from signal_step_counts [OF t(1-4)] s1
    have k: "closes s1 \<le> closes self + (if all_facts t then 1 else 0)"
      "calls s1 \<le> calls self + (if all_facts t then 1 else 0)"
      "stdoutHasEnded s1 = stdoutHasEnded t" "stderrHasEnded s1 = stderrHasEnded t"
      "exited s1 = exited t" "all_facts s1 = all_facts t"
      by simp_all
    from t(5) have "fresh_signals (stdoutHasEnded s1) (stderrHasEnded s1) (exited s1) ins"
      by (simp add: k)
    from Cons.IH [OF this] k t(4) show ?thesis
      by (cases e) (auto simp add: r simp del: run.simps split: if_splits)
  qed
qed

text \<open>
  A session that sends a message, receives a line, and is terminated and ended while
  its three signals arrive.
\<close>

theorem close_at_most_once_witness:
  "closes (fst (run [CallSend (JSStr ''go''), StdoutData ''done\<newline>'', StdoutEnd, CallTerminate None,
       CallEnd (Some 3), Exit (Some 0) None, StderrEnd] example_shell)) \<le> 1
   \<and> calls (fst (run [CallSend (JSStr ''go''), StdoutData ''done\<newline>'', StdoutEnd, CallTerminate None,
       CallEnd (Some 3), Exit (Some 0) None, StderrEnd] example_shell)) \<le> 1"
proof -
  have f: "fresh_signals (stdoutHasEnded example_shell) (stderrHasEnded example_shell) (exited example_shell)
     [CallSend (JSStr ''go''), StdoutData ''done\<newline>'', StdoutEnd, CallTerminate None,
       CallEnd (Some 3), Exit (Some 0) None, StderrEnd]"
    by (simp add: example_shell_fields exited_def)
  have a: "\<not> all_facts example_shell" "closes example_shell = 0" "calls example_shell = 0"
    by (simp_all add: all_facts_def closes_def calls_def example_shell_fields)
  show ?thesis
    using close_at_most_once [OF f] by (simp add: a del: run.simps)
qed

end
